theory Spec2Isabelle
  imports Complex_Main
begin

section \<open>Python values\<close>

text \<open>
  Python floats are modelled as real numbers: arithmetic is exact, rounding to binary64 is
  left out. Text is a list of 8-bit characters; a character outside ASCII stands as the
  bytes of its UTF-8 encoding, and only the ASCII digits count as digits.
\<close>

subsection \<open>JSON values, truthiness and exceptions\<close>

text \<open>
  A decoded JSON document; an object is the \<^verbatim>\<open>dict\<close> it decodes to, held as a list of
  key and value pairs.
\<close>

datatype json =
  JNull | JBool bool | JNum real | JStr string | JArr "json list" | JObj "(string \<times> json) list"

fun truthy :: "json \<Rightarrow> bool" where
  "truthy JNull = False"
| "truthy (JBool b) = b"
| "truthy (JNum x) = (x \<noteq> 0)"
| "truthy (JStr s) = (s \<noteq> [])"
| "truthy (JArr xs) = (xs \<noteq> [])"
| "truthy (JObj kvs) = (kvs \<noteq> [])"

text \<open>\<^verbatim>\<open>d.get(key, default)\<close>.\<close>

definition dict_get :: "(string \<times> 'v) list \<Rightarrow> string \<Rightarrow> 'v \<Rightarrow> 'v" where
  "dict_get d key dflt = (case map_of d key of Some v \<Rightarrow> v | None \<Rightarrow> dflt)"

text \<open>
  The \<^verbatim>\<open>detail\<close> of an \<^verbatim>\<open>HTTPException\<close> is a text or the dict
  \<^verbatim>\<open>{"status": ..., "message": ...}\<close>. Every exception that is not an
  \<^verbatim>\<open>HTTPException\<close> (\<^verbatim>\<open>AttributeError\<close>, \<^verbatim>\<open>KeyError\<close>, a pydantic
  \<^verbatim>\<open>ValidationError\<close>) is a \<open>PyError\<close> with its text.
\<close>

datatype detail = Text string | StatusMessage json json

datatype exn = HTTPException int detail | PyError string

text \<open>
  What \<^verbatim>\<open>requests.get\<close> raises. A connect timeout is both a \<^verbatim>\<open>ConnectionError\<close> and
  a \<^verbatim>\<open>Timeout\<close> and is caught by the first handler, so it counts as \<open>ConnectionError\<close>;
  \<open>RequestException\<close> is any other exception of the library, with its text.
\<close>

datatype requests_exception = ConnectionError | Timeout | RequestException string

section \<open>cache.py\<close>

text \<open>
  \<^verbatim>\<open>self.cache: Dict[str, Tuple[Any, float]]\<close> maps a key to the value and its expiry
  timestamp. Each reading of \<^verbatim>\<open>time.time()\<close> is passed in as \<open>now\<close>.
\<close>

record 'v TTLCache =
  cache :: "string \<rightharpoonup> ('v \<times> real)"
  ttl_seconds :: real

definition TTLCache_init :: "real \<Rightarrow> 'v TTLCache" where
  "TTLCache_init ttl = \<lparr>cache = Map.empty, ttl_seconds = ttl\<rparr>"

definition TTLCache_get :: "'v TTLCache \<Rightarrow> real \<Rightarrow> string \<Rightarrow> 'v option \<times> 'v TTLCache" where
  "TTLCache_get self now key =
     (case cache self key of
        Some (val, expiry_time) \<Rightarrow>
          if now < expiry_time then (Some val, self)
          else (None, self\<lparr>cache := (cache self)(key := None)\<rparr>)
      | None \<Rightarrow> (None, self))"

definition TTLCache_set :: "'v TTLCache \<Rightarrow> real \<Rightarrow> string \<Rightarrow> 'v \<Rightarrow> 'v TTLCache" where
  "TTLCache_set self now key val =
     (let expiry_time = now + ttl_seconds self
      in self\<lparr>cache := (cache self)(key \<mapsto> (val, expiry_time))\<rparr>)"

definition TTLCache_clear :: "'v TTLCache \<Rightarrow> 'v TTLCache" where
  "TTLCache_clear self = self\<lparr>cache := Map.empty\<rparr>"

section \<open>Python text and the builtin float\<close>

subsection \<open>Text\<close>

definition is_digit :: "char \<Rightarrow> bool" where
  "is_digit c = (48 \<le> (of_char c :: nat) \<and> (of_char c :: nat) \<le> 57)"

definition is_space :: "char \<Rightarrow> bool" where
  "is_space c = ((9 \<le> (of_char c :: nat) \<and> (of_char c :: nat) \<le> 13)
               \<or> (28 \<le> (of_char c :: nat) \<and> (of_char c :: nat) \<le> 32))"

definition upper_char :: "char \<Rightarrow> char" where
  "upper_char c = (if 97 \<le> (of_char c :: nat) \<and> (of_char c :: nat) \<le> 122
                   then char_of ((of_char c :: nat) - 32) else c)"

definition lower_char :: "char \<Rightarrow> char" where
  "lower_char c = (if 65 \<le> (of_char c :: nat) \<and> (of_char c :: nat) \<le> 90
                   then char_of ((of_char c :: nat) + 32) else c)"

text \<open>\<^verbatim>\<open>str.upper()\<close>, \<^verbatim>\<open>str.lower()\<close> and \<^verbatim>\<open>str.strip()\<close>, on ASCII letters and whitespace.\<close>

definition upper :: "string \<Rightarrow> string" where
  "upper s = map upper_char s"

definition lower :: "string \<Rightarrow> string" where
  "lower s = map lower_char s"

definition strip :: "string \<Rightarrow> string" where
  "strip s = rev (dropWhile is_space (rev (dropWhile is_space s)))"

text \<open>\<^verbatim>\<open>sub in s\<close> on strings.\<close>

fun startswith :: "string \<Rightarrow> string \<Rightarrow> bool" where
  "startswith s [] = True"
| "startswith [] (p # ps) = False"
| "startswith (c # cs) (p # ps) = (c = p \<and> startswith cs ps)"

fun contains :: "string \<Rightarrow> string \<Rightarrow> bool" where
  "contains [] sub = (sub = [])"
| "contains (c # cs) sub = (startswith (c # cs) sub \<or> contains cs sub)"

subsection \<open>The builtin float\<close>

text \<open>
  The number a run of decimal digits denotes, and \<^verbatim>\<open>float(s)\<close>. On text made of digits
  and periods only, \<^verbatim>\<open>float\<close> returns a number when there is at least one digit and at
  most one period and raises \<^verbatim>\<open>ValueError\<close> (here \<open>None\<close>) otherwise. On any other text
  (signs, exponents, whitespace, underscores, \<^verbatim>\<open>inf\<close>, \<^verbatim>\<open>nan\<close>) the builtin is a
  parameter \<open>fl\<close> of the model.
\<close>

definition decimal :: "string \<Rightarrow> real" where
  "decimal ds = foldl (\<lambda>a c. 10 * a + real ((of_char c :: nat) - 48)) 0 ds"

definition float_of_decimal :: "string \<Rightarrow> real option" where
  "float_of_decimal s =
     (let ip = takeWhile is_digit s; r = dropWhile is_digit s
      in case r of
           [] \<Rightarrow> if ip = [] then None else Some (decimal ip)
         | c # fp \<Rightarrow>
             if c = CHR ''.'' \<and> list_all is_digit fp \<and> (ip \<noteq> [] \<or> fp \<noteq> [])
             then Some (decimal ip + decimal fp / 10 ^ length fp)
             else None)"

definition py_float :: "(string \<Rightarrow> real option) \<Rightarrow> string \<Rightarrow> real option" where
  "py_float fl s =
     (if list_all (\<lambda>c. is_digit c \<or> c = CHR ''.'') s then float_of_decimal s else fl s)"

section \<open>services/marketwatch\_scraper.py\<close>

subsection \<open>\_parse\_market\_cap\_string\<close>

text \<open>
  \<^verbatim>\<open>re.sub(r'[^\dBMKTbmkt.]', '', market_cap_str)\<close> keeps the characters of \<open>kept\<close>;
  \<^verbatim>\<open>re.match(r'(\d[\d.]*)([BMKT])?', cleaned_str)\<close> matches at the start of the text only:
  group 1 is a digit and the longest run of digits and periods after it, group 2 the next
  character when it is a unit letter.
\<close>

definition kept :: "char \<Rightarrow> bool" where
  "kept c = (is_digit c \<or> c \<in> set ''BMKTbmkt.'')"

definition digit_or_period :: "char \<Rightarrow> bool" where
  "digit_or_period c = (is_digit c \<or> c = CHR ''.'')"

definition re_match_market_cap :: "string \<Rightarrow> (string \<times> char option) option" where
  "re_match_market_cap s =
     (case s of
        [] \<Rightarrow> None
      | c # cs \<Rightarrow>
          if is_digit c then
            Some (c # takeWhile digit_or_period cs,
                  (case dropWhile digit_or_period cs of
                     [] \<Rightarrow> None
                   | u # _ \<Rightarrow> if u \<in> set ''BMKT'' then Some u else None))
          else None)"

definition parse_market_cap_string :: "(string \<Rightarrow> real option) \<Rightarrow> string \<Rightarrow> real option" where
  "parse_market_cap_string fl market_cap_str =
     (if market_cap_str = [] then None
      else
        let cleaned_str = upper (strip (filter kept market_cap_str))
        in case re_match_market_cap cleaned_str of
             Some (numerical_part_str, unit) \<Rightarrow>
               if numerical_part_str = [] \<or> numerical_part_str = ''.'' then None
               else (case py_float fl numerical_part_str of
                       None \<Rightarrow> None
                     | Some val \<Rightarrow>
                         if unit = Some (CHR ''B'') then Some (val * 1000000000)
                         else if unit = Some (CHR ''M'') then Some (val * 1000000)
                         else if unit = Some (CHR ''T'') then Some (val * 1000000000000)
                         else if unit = Some (CHR ''K'') then Some (val * 1000)
                         else Some val)
           | None \<Rightarrow> None)"

subsection \<open>The records of models.py that the scraper builds\<close>

record StockValues =
  "open" :: real
  high :: real
  low :: real
  close :: real

record PerformanceData =
  five_days :: "real option"
  one_month :: "real option"
  three_months :: "real option"
  year_to_date :: "real option"
  one_year :: "real option"

record MarketCap =
  currency :: string
  "value" :: real

record Competitor =
  name :: string
  market_cap :: MarketCap

definition PerformanceData_init :: PerformanceData where
  "PerformanceData_init =
     \<lparr>five_days = None, one_month = None, three_months = None, year_to_date = None,
      one_year = None\<rparr>"

subsection \<open>scrape\_performance\_and\_competitors\<close>

text \<open>
  The parsed document is given by what the queries of the HTML library return on it.
  A section is looked up by its label: \<^verbatim>\<open>soup.find('span', ...)\<close>, then
  \<^verbatim>\<open>find_parent('header', ...)\<close>, then \<^verbatim>\<open>find_next_sibling('table', ...)\<close>; each step
  may find nothing. A tag is truthy whatever it holds, so \<^verbatim>\<open>if tag:\<close> asks whether the
  query found one.
\<close>

datatype 't located = NoSpan | NoHeader | NoTable | Table 't

definition find_table :: "'t located \<Rightarrow> 't option" where
  "find_table sec = (case sec of Table t \<Rightarrow> Some t | _ \<Rightarrow> None)"

text \<open>
  A cell of a performance row: its \<^verbatim>\<open>get_text(strip=True)\<close>, and the text of the
  \<^verbatim>\<open>li\<close> found in the \<^verbatim>\<open>ul\<close> found in it (\<open>None\<close>: no \<^verbatim>\<open>ul\<close>; \<open>Some None\<close>: a
  \<^verbatim>\<open>ul\<close> without the \<^verbatim>\<open>li\<close>). A performance row is the list of its cells.
\<close>

record cell =
  cell_text :: string
  cell_ul_li :: "string option option"

text \<open>
  A competitor row: the text of the name cell and of the market-cap cell, where
  \<^verbatim>\<open>row.find\<close> found them. The competitors table holds the rows of its
  \<^verbatim>\<open>tbody\<close>, when it has one.
\<close>

record competitor_row =
  name_tag :: "string option"
  market_cap_tag :: "string option"

record document =
  performance_section :: "cell list list located"
  competitors_section :: "competitor_row list option located"

text \<open>The yen sign U+00A5 and the won sign U+20A9, in UTF-8.\<close>

definition yen :: string where
  "yen = [CHR 0xC2, CHR 0xA5]"

definition won :: string where
  "won = [CHR 0xE2, CHR 0x82, CHR 0xA9]"

definition set_performance :: "PerformanceData \<Rightarrow> string \<Rightarrow> real \<Rightarrow> PerformanceData" where
  "set_performance performance_data label_text float_value =
     (if contains label_text ''5_day'' then performance_data\<lparr>five_days := Some float_value\<rparr>
      else if contains label_text ''1_month'' then performance_data\<lparr>one_month := Some float_value\<rparr>
      else if contains label_text ''3_month'' then performance_data\<lparr>three_months := Some float_value\<rparr>
      else if contains label_text ''ytd'' then performance_data\<lparr>year_to_date := Some float_value\<rparr>
      else if contains label_text ''1_year'' then performance_data\<lparr>one_year := Some float_value\<rparr>
      else performance_data)"

definition replace_char :: "char \<Rightarrow> char \<Rightarrow> string \<Rightarrow> string" where
  "replace_char a b s = map (\<lambda>c. if c = a then b else c) s"

definition remove_char :: "char \<Rightarrow> string \<Rightarrow> string" where
  "remove_char a s = filter (\<lambda>c. c \<noteq> a) s"

definition scrape_performance_row ::
  "(string \<Rightarrow> real option) \<Rightarrow> PerformanceData \<Rightarrow> cell list \<Rightarrow> PerformanceData" where
  "scrape_performance_row fl performance_data cells =
     (if length cells = 2 then
        let label_text =
              remove_char (CHR ''.'')
                (replace_char (CHR ''-'') (CHR ''_'')
                  (replace_char (CHR '' '') (CHR ''_'') (lower (cell_text (cells ! 0)))));
            value_tag = (case cell_ul_li (cells ! 1) of None \<Rightarrow> None | Some li \<Rightarrow> li)
        in case value_tag of
             Some text \<Rightarrow>
               (let value_text = remove_char (CHR ''%'') text
                in case py_float fl value_text of
                     Some float_value \<Rightarrow> set_performance performance_data label_text float_value
                   | None \<Rightarrow> performance_data)
           | None \<Rightarrow> performance_data
      else performance_data)"

definition scrape_performance :: "(string \<Rightarrow> real option) \<Rightarrow> document \<Rightarrow> PerformanceData" where
  "scrape_performance fl doc =
     (case find_table (performance_section doc) of
        Some rows \<Rightarrow> foldl (scrape_performance_row fl) PerformanceData_init rows
      | None \<Rightarrow> PerformanceData_init)"

text \<open>The loop over the competitor rows; \<open>competitors\<close> is the list built so far.\<close>

fun scrape_competitor_rows ::
  "(string \<Rightarrow> real option) \<Rightarrow> competitor_row list \<Rightarrow> Competitor list \<Rightarrow> Competitor list" where
  "scrape_competitor_rows fl [] competitors = competitors"
| "scrape_competitor_rows fl (row # competitor_rows) competitors =
     scrape_competitor_rows fl competitor_rows
       (case name_tag row of
          None \<Rightarrow> competitors
        | Some name' \<Rightarrow>
            (case market_cap_tag row of
               None \<Rightarrow> competitors
             | Some market_cap_str \<Rightarrow>
                 (let currency' = (if contains market_cap_str yen then ''JPY''
                                   else if contains market_cap_str won then ''KRW''
                                   else ''USD'')
                  in case parse_market_cap_string fl market_cap_str of
                       Some market_cap_value \<Rightarrow>
                         competitors @
                           [\<lparr>name = name',
                             market_cap = \<lparr>currency = currency', value = market_cap_value\<rparr>\<rparr>]
                     | None \<Rightarrow> competitors)))"

definition scrape_competitors :: "(string \<Rightarrow> real option) \<Rightarrow> document \<Rightarrow> Competitor list" where
  "scrape_competitors fl doc =
     (case find_table (competitors_section doc) of
        Some competitors_table \<Rightarrow>
          (case competitors_table of
             Some competitor_rows \<Rightarrow> scrape_competitor_rows fl competitor_rows []
           | None \<Rightarrow> [])
      | None \<Rightarrow> [])"

text \<open>
  The response of MarketWatch: its status code, the text of the \<^verbatim>\<open>HTTPError\<close> that
  \<^verbatim>\<open>raise_for_status\<close> builds for a 4xx or 5xx code, and the parsed body, or the text
  of the exception the HTML library raised on it.
\<close>

record marketwatch_response =
  mw_status_code :: int
  mw_http_error :: string
  mw_soup :: "string + document"

text \<open>The dict the scraper returns.\<close>

datatype scraped_value = PerformanceV PerformanceData | CompetitorsV "Competitor list"

definition scrape_performance_and_competitors ::
  "(string \<Rightarrow> requests_exception + marketwatch_response) \<Rightarrow> (string \<Rightarrow> real option)
     \<Rightarrow> string \<Rightarrow> exn + (string \<times> scraped_value) list" where
  "scrape_performance_and_competitors requests_get fl symbol =
     (let url = ''https://www.marketwatch.com/investing/stock/'' @ lower symbol
      in case requests_get url of
           Inl ConnectionError \<Rightarrow>
             Inl (HTTPException 503 (Text ''Could not connect to MarketWatch.''))
         | Inl Timeout \<Rightarrow>
             Inl (HTTPException 504 (Text ''MarketWatch scraping timed out.''))
         | Inl (RequestException e) \<Rightarrow>
             Inl (HTTPException 500 (Text (''An error occurred with MarketWatch scraping: '' @ e)))
         | Inr response \<Rightarrow>
             if 400 \<le> mw_status_code response \<and> mw_status_code response < 600 then
               (if mw_status_code response = 401 then
                  Inl (HTTPException 401 (Text
                    ''MarketWatch scraping failed: 401 Unauthorized. Ensure a valid MARKETWATCH_COOKIE is set.''))
                else if mw_status_code response = 404 then
                  Inl (HTTPException 404 (Text (''MarketWatch page not found for '' @ symbol @ ''.'')))
                else
                  Inl (HTTPException (mw_status_code response)
                        (Text (''MarketWatch HTTP error: '' @ mw_http_error response))))
             else
               (case mw_soup response of
                  Inl e \<Rightarrow>
                    Inl (HTTPException 500
                          (Text (''An error occurred while parsing MarketWatch data: '' @ e)))
                | Inr doc \<Rightarrow>
                    Inr [(''performance_data'', PerformanceV (scrape_performance fl doc)),
                         (''competitors'', CompetitorsV (scrape_competitors fl doc))]))"

section \<open>services/polygon\_service.py\<close>

text \<open>
  The response of Polygon.io: its status code and what \<^verbatim>\<open>response.json()\<close> returns
  (\<open>None\<close> when it raises \<^verbatim>\<open>ValueError\<close>).
\<close>

record polygon_response =
  status_code :: int
  json_body :: "json option"

definition POLYGON_BASE_URL :: string where
  "POLYGON_BASE_URL = ''https://api.polygon.io''"

definition make_request ::
  "(string \<Rightarrow> (string \<times> string) list \<Rightarrow> requests_exception + polygon_response) \<Rightarrow> string
     \<Rightarrow> string \<Rightarrow> (string \<times> string) list \<Rightarrow> exn + (string \<times> json) list" where
  "make_request requests_get POLYGON_API_KEY endpoint params =
     (let url = POLYGON_BASE_URL @ endpoint
      in case requests_get url (params @ [(''apiKey'', POLYGON_API_KEY)]) of
           Inl ConnectionError \<Rightarrow>
             Inl (HTTPException 503 (Text ''Could not connect to Polygon.io API.''))
         | Inl Timeout \<Rightarrow>
             Inl (HTTPException 504 (Text ''Polygon.io API request timed out.''))
         | Inl (RequestException e) \<Rightarrow>
             Inl (HTTPException 500 (Text (''An error occurred with Polygon.io: '' @ e)))
         | Inr response \<Rightarrow>
             (case json_body response of
                None \<Rightarrow> Inl (HTTPException 500 (Text ''Invalid JSON response from Polygon.io.''))
              | Some (JObj data) \<Rightarrow>
                  if 400 \<le> status_code response then
                    Inl (HTTPException (status_code response)
                          (StatusMessage (dict_get data ''status'' (JStr ''error''))
                                         (dict_get data ''message'' (JStr ''Polygon.io API error.''))))
                  else if dict_get data ''status'' JNull = JStr ''ERROR''
                          \<or> dict_get data ''status'' JNull = JStr ''NOT_FOUND'' then
                    Inl (HTTPException 404
                          (StatusMessage (dict_get data ''status'' JNull)
                                         (dict_get data ''message''
                                            (JStr ''Data not found or API error.''))))
                  else if dict_get data ''status'' JNull = JStr ''failed'' then Inr []
                  else Inr data
              | Some _ \<Rightarrow> Inl (PyError ''AttributeError'')))"

definition PolygonService_get_daily_open_close ::
  "(string \<Rightarrow> (string \<times> string) list \<Rightarrow> requests_exception + polygon_response) \<Rightarrow> string
     \<Rightarrow> string \<Rightarrow> string \<Rightarrow> exn + json" where
  "PolygonService_get_daily_open_close requests_get POLYGON_API_KEY symbol date_str =
     (let endpoint = ''/v1/open-close/'' @ symbol @ ''/'' @ date_str
      in case make_request requests_get POLYGON_API_KEY endpoint [(''adjusted'', ''true'')] of
           Inl e \<Rightarrow> Inl e
         | Inr data \<Rightarrow> Inr (JObj data))"

definition PolygonService_get_company_details ::
  "(string \<Rightarrow> (string \<times> string) list \<Rightarrow> requests_exception + polygon_response) \<Rightarrow> string
     \<Rightarrow> string \<Rightarrow> exn + json" where
  "PolygonService_get_company_details requests_get POLYGON_API_KEY symbol =
     (let endpoint = ''/v3/reference/tickers/'' @ symbol
      in case make_request requests_get POLYGON_API_KEY endpoint [] of
           Inl e \<Rightarrow> Inl e
         | Inr data \<Rightarrow> Inr (dict_get data ''results'' (JObj [])))"

section \<open>main.py\<close>

record Stock =
  status :: string
  purchased_amount :: "real option"
  purchased_status :: "string option"
  request_data :: int
  company_code :: string
  company_name :: string
  stock_values :: StockValues
  performance_data :: PerformanceData
  competitors :: "Competitor list"

text \<open>
  What a request meets outside the program: the three service methods (the tests replace
  them by mocks, the application binds them to the two services above), the readings of
  the clock in the order the handler takes them, \<^verbatim>\<open>strftime("%Y-%m-%d")\<close> on a date,
  and what pydantic makes of a JSON value that is not a number in a \<^verbatim>\<open>float\<close> field or
  not a text in a \<^verbatim>\<open>str\<close> field (\<open>None\<close>: a \<^verbatim>\<open>ValidationError\<close>). A date is the
  number of its day; \<^verbatim>\<open>today - timedelta(days=2)\<close> is the day two before.
\<close>

record env =
  get_daily_open_close :: "string \<Rightarrow> string \<Rightarrow> exn + json"
  get_company_details :: "string \<Rightarrow> exn + json"
  scrape :: "string \<Rightarrow> exn + (string \<times> scraped_value) list"
  time_at_get :: real
  today_at_fetch :: int
  today_at_build :: int
  time_at_set :: real
  strftime :: "int \<Rightarrow> string"
  float_field :: "json \<Rightarrow> real option"
  str_field :: "json \<Rightarrow> string option"

text \<open>The calls to the source clients, in the order they are made.\<close>

datatype call =
  Call_get_daily_open_close string string
  | Call_get_company_details string
  | Call_scrape_performance_and_competitors string

definition validate_float :: "env \<Rightarrow> json \<Rightarrow> real option" where
  "validate_float e v = (case v of JNum x \<Rightarrow> Some x | _ \<Rightarrow> float_field e v)"

definition validate_str :: "env \<Rightarrow> json \<Rightarrow> string option" where
  "validate_str e v = (case v of JStr t \<Rightarrow> Some t | _ \<Rightarrow> str_field e v)"

definition StockValues_init :: "env \<Rightarrow> json \<Rightarrow> json \<Rightarrow> json \<Rightarrow> json \<Rightarrow> exn + StockValues" where
  "StockValues_init e open' high' low' close' =
     (case validate_float e open' of
        None \<Rightarrow> Inl (PyError ''ValidationError'')
      | Some a \<Rightarrow>
     (case validate_float e high' of
        None \<Rightarrow> Inl (PyError ''ValidationError'')
      | Some b \<Rightarrow>
     (case validate_float e low' of
        None \<Rightarrow> Inl (PyError ''ValidationError'')
      | Some c \<Rightarrow>
     (case validate_float e close' of
        None \<Rightarrow> Inl (PyError ''ValidationError'')
      | Some d \<Rightarrow> Inr \<lparr>open = a, high = b, low = c, close = d\<rparr>))))"

text \<open>Step 2: the daily values, and the status message after the step.\<close>

definition fetch_stock_values ::
  "env \<Rightarrow> string \<Rightarrow> string \<Rightarrow> string \<Rightarrow> exn + (StockValues \<times> string)" where
  "fetch_stock_values e symbol_upper today_str status_message =
     (case get_daily_open_close e symbol_upper today_str of
        Inl err \<Rightarrow> Inl err
      | Inr polygon_data \<Rightarrow>
          if truthy polygon_data then
            (case polygon_data of
               JObj d \<Rightarrow>
                 (case StockValues_init e (dict_get d ''open'' (JNum 0)) (dict_get d ''high'' (JNum 0))
                         (dict_get d ''low'' (JNum 0)) (dict_get d ''close'' (JNum 0)) of
                    Inl err \<Rightarrow> Inl err
                  | Inr sv \<Rightarrow> Inr (sv, status_message))
             | _ \<Rightarrow> Inl (PyError ''AttributeError''))
          else
            Inr (\<lparr>open = 0, high = 0, low = 0, close = 0\<rparr>,
                 status_message @ '' (Polygon daily data not available)''))"

text \<open>Step 3: the company name, as the JSON value found, and the status message.\<close>

definition fetch_company_name :: "env \<Rightarrow> string \<Rightarrow> string \<Rightarrow> exn + (json \<times> string)" where
  "fetch_company_name e symbol_upper status_message =
     (case get_company_details e symbol_upper of
        Inl err \<Rightarrow> Inl err
      | Inr company_details \<Rightarrow>
          if truthy company_details then
            (case company_details of
               JObj d \<Rightarrow>
                 if truthy (dict_get d ''name'' JNull)
                 then Inr (dict_get d ''name'' JNull, status_message)
                 else Inr (JStr ''N/A'', status_message @ '' (Company name not found)'')
             | _ \<Rightarrow> Inl (PyError ''AttributeError''))
          else Inr (JStr ''N/A'', status_message @ '' (Company name not found)''))"

text \<open>Step 4: the scraped performance and competitors, and the status message.\<close>

definition fetch_scraped ::
  "env \<Rightarrow> string \<Rightarrow> string \<Rightarrow> exn + (scraped_value \<times> scraped_value \<times> string)" where
  "fetch_scraped e symbol_upper status_message =
     (case scrape e symbol_upper of
        Inl err \<Rightarrow> Inl err
      | Inr scraped_data \<Rightarrow>
          if scraped_data \<noteq> [] then
            (case map_of scraped_data ''performance_data'' of
               None \<Rightarrow> Inl (PyError ''KeyError'')
             | Some p \<Rightarrow>
                 (case map_of scraped_data ''competitors'' of
                    None \<Rightarrow> Inl (PyError ''KeyError'')
                  | Some c \<Rightarrow> Inr (p, c, status_message)))
          else
            Inr (PerformanceV PerformanceData_init, CompetitorsV [],
                 status_message @ '' (MarketWatch data not available)''))"

text \<open>
  The body of the \<^verbatim>\<open>try\<close>: the three steps in order, each reached only when the one
  before it raised nothing, with the calls made.
\<close>

definition try_fetch ::
  "env \<Rightarrow> string \<Rightarrow> string
     \<Rightarrow> (exn + (StockValues \<times> json \<times> scraped_value \<times> scraped_value \<times> string)) \<times> call list" where
  "try_fetch e symbol_upper today_str =
     (case fetch_stock_values e symbol_upper today_str ''Success'' of
        Inl err \<Rightarrow> (Inl err, [Call_get_daily_open_close symbol_upper today_str])
      | Inr (sv, status1) \<Rightarrow>
          (case fetch_company_name e symbol_upper status1 of
             Inl err \<Rightarrow>
               (Inl err, [Call_get_daily_open_close symbol_upper today_str,
                          Call_get_company_details symbol_upper])
           | Inr (cn, status2) \<Rightarrow>
               (case fetch_scraped e symbol_upper status2 of
                  Inl err \<Rightarrow>
                    (Inl err, [Call_get_daily_open_close symbol_upper today_str,
                               Call_get_company_details symbol_upper,
                               Call_scrape_performance_and_competitors symbol_upper])
                | Inr (pd, cs, status3) \<Rightarrow>
                    (Inr (sv, cn, pd, cs, status3),
                     [Call_get_daily_open_close symbol_upper today_str,
                      Call_get_company_details symbol_upper,
                      Call_scrape_performance_and_competitors symbol_upper]))))"

text \<open>
  The two \<^verbatim>\<open>except\<close> clauses: an \<^verbatim>\<open>HTTPException\<close> is raised again as it is, any
  other exception becomes a 500.
\<close>

definition except_clauses :: "exn \<Rightarrow> exn" where
  "except_clauses err =
     (case err of
        HTTPException c d \<Rightarrow> HTTPException c d
      | PyError m \<Rightarrow> HTTPException 500 (Text (''An internal server error occurred: '' @ m)))"

text \<open>Step 5: \<^verbatim>\<open>Stock(...)\<close>, validated by pydantic, outside the \<^verbatim>\<open>try\<close>.\<close>

definition Stock_init ::
  "env \<Rightarrow> string \<Rightarrow> int \<Rightarrow> string \<Rightarrow> json \<Rightarrow> StockValues \<Rightarrow> scraped_value \<Rightarrow> scraped_value
     \<Rightarrow> exn + Stock" where
  "Stock_init e status_message today symbol_upper cn sv pd cs =
     (case validate_str e cn of
        None \<Rightarrow> Inl (PyError ''ValidationError'')
      | Some n \<Rightarrow>
          (case pd of
             CompetitorsV _ \<Rightarrow> Inl (PyError ''ValidationError'')
           | PerformanceV p \<Rightarrow>
               (case cs of
                  PerformanceV _ \<Rightarrow> Inl (PyError ''ValidationError'')
                | CompetitorsV c \<Rightarrow>
                    Inr \<lparr>status = status_message, purchased_amount = None,
                         purchased_status = None, request_data = today,
                         company_code = symbol_upper, company_name = n, stock_values = sv,
                         performance_data = p, competitors = c\<rparr>)))"

text \<open>
  The handler returns its result or the exception it raised, the cache after the request
  and the calls it made to the source clients.
\<close>

definition get_stock_data ::
  "env \<Rightarrow> Stock TTLCache \<Rightarrow> string \<Rightarrow> (exn + Stock) \<times> Stock TTLCache \<times> call list" where
  "get_stock_data e stock_cache stock_symbol =
     (let symbol_upper = upper stock_symbol
      in case TTLCache_get stock_cache (time_at_get e) symbol_upper of
           (Some cached_stock, stock_cache1) \<Rightarrow> (Inr cached_stock, stock_cache1, [])
         | (None, stock_cache1) \<Rightarrow>
             (let today = today_at_fetch e;
                  yesterday = today - 2;
                  today_str = strftime e yesterday
              in case try_fetch e symbol_upper today_str of
                   (Inl err, calls) \<Rightarrow> (Inl (except_clauses err), stock_cache1, calls)
                 | (Inr (sv, cn, pd, cs, status_message), calls) \<Rightarrow>
                     (case Stock_init e status_message (today_at_build e) symbol_upper cn sv pd cs of
                        Inl err \<Rightarrow> (Inl err, stock_cache1, calls)
                      | Inr stock_data \<Rightarrow>
                          (Inr stock_data,
                           TTLCache_set stock_cache1 (time_at_set e) symbol_upper stock_data,
                           calls))))"

text \<open>
  The application: the cache of five minutes, empty at the start, and the three service
  methods bound to the Polygon.io service and the MarketWatch scraper.
\<close>

definition stock_cache_init :: "Stock TTLCache" where
  "stock_cache_init = TTLCache_init 300"

record upstream =
  polygon_requests_get ::
    "string \<Rightarrow> (string \<times> string) list \<Rightarrow> requests_exception + polygon_response"
  polygon_api_key :: string
  marketwatch_requests_get :: "string \<Rightarrow> requests_exception + marketwatch_response"
  float_builtin :: "string \<Rightarrow> real option"

definition live :: "upstream \<Rightarrow> env \<Rightarrow> env" where
  "live u e =
     e\<lparr>get_daily_open_close :=
         PolygonService_get_daily_open_close (polygon_requests_get u) (polygon_api_key u),
       get_company_details :=
         PolygonService_get_company_details (polygon_requests_get u) (polygon_api_key u),
       scrape :=
         scrape_performance_and_competitors (marketwatch_requests_get u) (float_builtin u)\<rparr>"

text \<open>A run of the server: the requests in order, each on the cache the one before left.\<close>

fun serve :: "Stock TTLCache \<Rightarrow> (env \<times> string) list \<Rightarrow> (exn + Stock) list" where
  "serve stock_cache [] = []"
| "serve stock_cache ((e, stock_symbol) # requests) =
     (case get_stock_data e stock_cache stock_symbol of
        (res, stock_cache1, _) \<Rightarrow> res # serve stock_cache1 requests)"

section \<open>The shorthand notation, in the words of the specification\<close>







section \<open>The competitor rows, in the words of the specification\<close>

text \<open>
  The currency read off the raw market-cap text, and the competitor a row contributes:
  a row qualifies when it has a name cell and a market-cap cell, and is kept when its
  market-cap shorthand parses.
\<close>

definition detected_currency :: "string \<Rightarrow> string" where
  "detected_currency market_cap_str =
     (if contains market_cap_str yen then ''JPY''
      else if contains market_cap_str won then ''KRW''
      else ''USD'')"

definition qualifying_competitor ::
  "(string \<Rightarrow> real option) \<Rightarrow> competitor_row \<Rightarrow> Competitor option" where
  "qualifying_competitor fl row =
     (case name_tag row of
        None \<Rightarrow> None
      | Some n \<Rightarrow>
          (case market_cap_tag row of
             None \<Rightarrow> None
           | Some m \<Rightarrow>
               (case parse_market_cap_string fl m of
                  None \<Rightarrow> None
                | Some v \<Rightarrow>
                    Some \<lparr>name = n, market_cap = \<lparr>currency = detected_currency m, value = v\<rparr>\<rparr>)))"

section \<open>The status message, in the words of the specification\<close>

text \<open>
  The three degradation phrases, in the order of the sub-fetches, and when a profile
  counts as having a name: it is a dict whose \<open>name\<close> is truthy.
\<close>

definition polygon_phrase :: string where
  "polygon_phrase = '' (Polygon daily data not available)''"

definition company_phrase :: string where
  "company_phrase = '' (Company name not found)''"

definition marketwatch_phrase :: string where
  "marketwatch_phrase = '' (MarketWatch data not available)''"

definition has_name :: "json \<Rightarrow> bool" where
  "has_name company_details =
     (case company_details of JObj d \<Rightarrow> truthy (dict_get d ''name'' JNull) | _ \<Rightarrow> False)"

section \<open>The fixtures of tests/test\_api.py\<close>

definition mock_polygon_daily_success :: json where
  "mock_polygon_daily_success =
     JObj [(''status'', JStr ''OK''), (''from'', JStr ''2023-01-09''), (''symbol'', JStr ''AAPL''),
           (''open'', JNum 130), (''high'', JNum 132), (''low'', JNum (259 / 2)),
           (''close'', JNum (263 / 2)), (''volume'', JNum 10000000),
           (''afterHours'', JNum (658 / 5)), (''preMarket'', JNum (649 / 5))]"

definition mock_company_details :: json where
  "mock_company_details =
     JObj [(''ticker'', JStr ''AAPL''), (''name'', JStr ''Apple Inc.''),
           (''market_cap'', JNum 2500000000000), (''currency_name'', JStr ''usd'')]"

definition mock_performance :: PerformanceData where
  "mock_performance =
     \<lparr>five_days = Some (3 / 2), one_month = Some 5, three_months = Some 10,
      year_to_date = Some 15, one_year = Some 20\<rparr>"

definition mock_competitors :: "Competitor list" where
  "mock_competitors =
     [\<lparr>name = ''Microsoft Corp.'', market_cap = \<lparr>currency = ''USD'', value = 2000000000000\<rparr>\<rparr>,
      \<lparr>name = ''Alphabet Inc.'', market_cap = \<lparr>currency = ''USD'', value = 1800000000000\<rparr>\<rparr>]"

definition mock_marketwatch_scrape_success :: "(string \<times> scraped_value) list" where
  "mock_marketwatch_scrape_success =
     [(''performance_data'', PerformanceV mock_performance),
      (''competitors'', CompetitorsV mock_competitors)]"

text \<open>
  The three mocks returning their fixtures, on day 738895 (2024-01-10) at second 1000; the cached
  record of an earlier request.
\<close>

definition mock_env :: env where
  "mock_env =
     \<lparr>get_daily_open_close = (\<lambda>symbol date_str. Inr mock_polygon_daily_success),
      get_company_details = (\<lambda>symbol. Inr mock_company_details),
      scrape = (\<lambda>symbol. Inr mock_marketwatch_scrape_success),
      time_at_get = 1000, today_at_fetch = 738895, today_at_build = 738895,
      time_at_set = 1001, strftime = (\<lambda>d. if d = 738893 then ''2024-01-08'' else ''other''),
      float_field = (\<lambda>v. None), str_field = (\<lambda>v. None)\<rparr>"

definition mock_stock :: Stock where
  "mock_stock =
     \<lparr>status = ''Success'', purchased_amount = None, purchased_status = None,
      request_data = 738895, company_code = ''AAPL'', company_name = ''Apple Inc.'',
      stock_values = \<lparr>open = 130, high = 132, low = 259 / 2, close = 263 / 2\<rparr>,
      performance_data = mock_performance, competitors = mock_competitors\<rparr>"



text \<open>
  The mocks of the soft-empty case of the specification: no daily data, while the
  profile and the scrape succeed.
\<close>

definition mock_env_no_daily :: env where
  "mock_env_no_daily = mock_env\<lparr>get_daily_open_close := (\<lambda>symbol date_str. Inr (JObj []))\<rparr>"

section \<open>Upstream fixtures\<close>

text \<open>
  Responses of the two sites for the application with its own services: Polygon.io
  answers the open-close request and the ticker request with a 200, MarketWatch with a
  200 and a page that has neither a Performance nor a Competitors section.
\<close>

definition empty_page :: document where
  "empty_page = \<lparr>performance_section = NoSpan, competitors_section = NoSpan\<rparr>"

definition polygon_ok :: "string \<Rightarrow> (string \<times> string) list \<Rightarrow> requests_exception + polygon_response" where
  "polygon_ok url params =
     (if startswith url ''https://api.polygon.io/v1/open-close/''
      then Inr \<lparr>status_code = 200, json_body = Some mock_polygon_daily_success\<rparr>
      else Inr \<lparr>status_code = 200,
                json_body = Some (JObj [(''status'', JStr ''OK''), (''results'', mock_company_details)])\<rparr>)"

definition upstream_empty_page :: upstream where
  "upstream_empty_page =
     \<lparr>polygon_requests_get = polygon_ok, polygon_api_key = ''key'',
      marketwatch_requests_get =
        (\<lambda>url. Inr \<lparr>mw_status_code = 200, mw_http_error = [], mw_soup = Inr empty_page\<rparr>),
      float_builtin = (\<lambda>t. None)\<rparr>"

text \<open>
  A page whose Competitors table has three rows: one in dollars, one whose market cap
  is not a shorthand number, one in yen.
\<close>

definition competitors_page :: document where
  "competitors_page =
     \<lparr>performance_section = NoSpan,
      competitors_section =
        Table (Some [\<lparr>name_tag = Some ''Microsoft Corp.'', market_cap_tag = Some ''$2.5T''\<rparr>,
                     \<lparr>name_tag = Some ''Acme'', market_cap_tag = Some ''n/a''\<rparr>,
                     \<lparr>name_tag = Some ''Sony'', market_cap_tag = Some (yen @ ''15.5T'')\<rparr>])\<rparr>"

definition upstream_competitors_page :: upstream where
  "upstream_competitors_page =
     upstream_empty_page
       \<lparr>marketwatch_requests_get :=
          (\<lambda>url. Inr \<lparr>mw_status_code = 200, mw_http_error = [], mw_soup = Inr competitors_page\<rparr>)\<rparr>"

text \<open>
  Polygon.io answering the ticker request with status \<open>ERROR\<close> under HTTP 429, with
  status \<open>NOT_FOUND\<close> under HTTP 200, with a result that has no name, and answering the
  open-close request with status \<open>failed\<close>.
\<close>

definition polygon_details ::
  "polygon_response \<Rightarrow> string \<Rightarrow> (string \<times> string) list \<Rightarrow> requests_exception + polygon_response" where
  "polygon_details response url params =
     (if startswith url ''https://api.polygon.io/v1/open-close/''
      then Inr \<lparr>status_code = 200, json_body = Some mock_polygon_daily_success\<rparr>
      else Inr response)"

definition upstream_rate_limited :: upstream where
  "upstream_rate_limited =
     upstream_empty_page
       \<lparr>polygon_requests_get :=
          polygon_details \<lparr>status_code = 429, json_body = Some (JObj [(''status'', JStr ''ERROR'')])\<rparr>\<rparr>"

definition upstream_not_found :: upstream where
  "upstream_not_found =
     upstream_empty_page
       \<lparr>polygon_requests_get :=
          polygon_details
            \<lparr>status_code = 200, json_body = Some (JObj [(''status'', JStr ''NOT_FOUND'')])\<rparr>\<rparr>"

definition upstream_no_name :: upstream where
  "upstream_no_name =
     upstream_empty_page
       \<lparr>polygon_requests_get :=
          polygon_details
            \<lparr>status_code = 200,
             json_body = Some (JObj [(''status'', JStr ''OK''),
                                     (''results'', JObj [(''ticker'', JStr ''AAPL'')])])\<rparr>\<rparr>"

definition upstream_no_daily :: upstream where
  "upstream_no_daily =
     upstream_empty_page
       \<lparr>polygon_requests_get :=
          (\<lambda>url params.
             if startswith url ''https://api.polygon.io/v1/open-close/''
             then Inr \<lparr>status_code = 200, json_body = Some (JObj [(''status'', JStr ''failed'')])\<rparr>
             else polygon_ok url params)\<rparr>"

section \<open>Properties of the cache\<close>

text \<open>
  C3. A value stored at time \<open>t0\<close> is returned unchanged by a lookup of its key at any time
  before \<open>t0 + ttl\<close>, and that lookup leaves the store as it is. A lookup at a time
  \<open>t0 + ttl\<close> or later returns nothing and deletes the entry: the key is no longer in
  the store, and every other key keeps its entry.
\<close>

theorem C3_set_get_within_ttl_and_eviction:
  fixes self :: "'v TTLCache"
  shows "(t1 < t0 + ttl_seconds self \<longrightarrow>
            TTLCache_get (TTLCache_set self t0 key val) t1 key
              = (Some val, TTLCache_set self t0 key val))
       \<and> (t0 + ttl_seconds self \<le> t1 \<longrightarrow>
            fst (TTLCache_get (TTLCache_set self t0 key val) t1 key) = None
          \<and> cache (snd (TTLCache_get (TTLCache_set self t0 key val) t1 key)) key = None
          \<and> key \<notin> dom (cache (snd (TTLCache_get (TTLCache_set self t0 key val) t1 key)))
          \<and> (\<forall>k. k \<noteq> key \<longrightarrow>
                cache (snd (TTLCache_get (TTLCache_set self t0 key val) t1 key)) k
                  = cache self k))"
  by (simp add: TTLCache_get_def TTLCache_set_def Let_def)

theorem C3_witness:
  "TTLCache_get (TTLCache_set (TTLCache_init 300) 1000 ''AAPL'' (7::nat)) 1299 ''AAPL''
      = (Some 7, TTLCache_set (TTLCache_init 300) 1000 ''AAPL'' 7)
   \<and> fst (TTLCache_get (TTLCache_set (TTLCache_init 300) 1000 ''AAPL'' (7::nat)) 1300 ''AAPL'')
      = None
   \<and> ''AAPL'' \<notin> dom (cache (snd (TTLCache_get
        (TTLCache_set (TTLCache_init 300) 1000 ''AAPL'' (7::nat)) 1300 ''AAPL'')))"
  using C3_set_get_within_ttl_and_eviction
          [of 1299 1000 "TTLCache_init 300 :: nat TTLCache" "''AAPL''" 7]
        C3_set_get_within_ttl_and_eviction
          [of 1300 1000 "TTLCache_init 300 :: nat TTLCache" "''AAPL''" 7]
  by (simp add: TTLCache_init_def)

section \<open>Properties of the shorthand parser\<close>


















section \<open>Properties of the request handler\<close>

lemma TTLCache_get_miss:
  "fst (TTLCache_get c t k) = None \<Longrightarrow>
     TTLCache_get c t k = (None, c\<lparr>cache := (cache c)(k := None)\<rparr>)"
proof (cases "cache c k")
  case None
  then have "(cache c)(k := None) = cache c" by (simp add: fun_upd_idem)
  then show ?thesis using None by (simp add: TTLCache_get_def)
next
  case (Some a)
  assume "fst (TTLCache_get c t k) = None"
  then show ?thesis using Some by (cases a) (auto simp: TTLCache_get_def split: if_splits)
qed

lemma TTLCache_get_hit:
  "cache c k = Some (v, x) \<Longrightarrow> t < x \<Longrightarrow> TTLCache_get c t k = (Some v, c)"
  by (simp add: TTLCache_get_def)

lemma get_stock_data_miss:
  assumes "fst (TTLCache_get c (time_at_get e) (upper symb)) = None"
  shows "get_stock_data e c symb =
     (case try_fetch e (upper symb) (strftime e (today_at_fetch e - 2)) of
        (Inl err, calls) \<Rightarrow>
          (Inl (except_clauses err), c\<lparr>cache := (cache c)(upper symb := None)\<rparr>, calls)
      | (Inr (sv, cn, pd, cs, status_message), calls) \<Rightarrow>
          (case Stock_init e status_message (today_at_build e) (upper symb) cn sv pd cs of
             Inl err \<Rightarrow> (Inl err, c\<lparr>cache := (cache c)(upper symb := None)\<rparr>, calls)
           | Inr stock_data \<Rightarrow>
               (Inr stock_data,
                TTLCache_set (c\<lparr>cache := (cache c)(upper symb := None)\<rparr>) (time_at_set e)
                  (upper symb) stock_data,
                calls)))"
  using TTLCache_get_miss [OF assms] by (simp add: get_stock_data_def Let_def)



text \<open>The first request of the tests, on the empty cache.\<close>

lemma upper_aapl: "upper ''aapl'' = ''AAPL''"
  by (simp add: upper_def upper_char_def char_of_def bit_0)

lemma mock_miss: "fst (TTLCache_get stock_cache_init t k) = None"
  by (simp add: TTLCache_get_def stock_cache_init_def TTLCache_init_def)

lemma mock_try_fetch:
  "try_fetch mock_env ''AAPL'' ''2024-01-08'' =
     (Inr (\<lparr>open = 130, high = 132, low = 259 / 2, close = 263 / 2\<rparr>, JStr ''Apple Inc.'',
           PerformanceV mock_performance, CompetitorsV mock_competitors, ''Success''),
      [Call_get_daily_open_close ''AAPL'' ''2024-01-08'', Call_get_company_details ''AAPL'',
       Call_scrape_performance_and_competitors ''AAPL''])"
  by (simp add: try_fetch_def fetch_stock_values_def fetch_company_name_def fetch_scraped_def
      mock_env_def mock_polygon_daily_success_def mock_company_details_def
      mock_marketwatch_scrape_success_def dict_get_def StockValues_init_def validate_float_def)

lemma mock_run:
  "get_stock_data mock_env stock_cache_init ''aapl'' =
     (Inr mock_stock, TTLCache_set stock_cache_init 1001 ''AAPL'' mock_stock,
      [Call_get_daily_open_close ''AAPL'' ''2024-01-08'', Call_get_company_details ''AAPL'',
       Call_scrape_performance_and_competitors ''AAPL''])"
proof -
  have d: "strftime mock_env (today_at_fetch mock_env - 2) = ''2024-01-08''"
    by (simp add: mock_env_def)
  have s: "Stock_init mock_env ''Success'' (today_at_build mock_env) ''AAPL'' (JStr ''Apple Inc.'')
      \<lparr>open = 130, high = 132, low = 259 / 2, close = 263 / 2\<rparr>
      (PerformanceV mock_performance) (CompetitorsV mock_competitors) = Inr mock_stock"
    by (simp add: Stock_init_def validate_str_def mock_stock_def mock_env_def)
  have c: "stock_cache_init\<lparr>cache := (cache stock_cache_init)(''AAPL'' := None)\<rparr> = stock_cache_init"
    by (simp add: stock_cache_init_def TTLCache_init_def)
  have t: "time_at_set mock_env = 1001" by (simp add: mock_env_def)
  show ?thesis
    by (simp add: get_stock_data_miss [OF mock_miss] upper_aapl d mock_try_fetch s c t)
qed

text \<open>
  C4. When the cache holds an entry for the upper-cased symbol that has not expired at
  the time of the lookup, the handler returns the cached record, calls none of the three
  source clients and leaves the cache as it was.
\<close>

theorem C4_cache_hit_no_calls:
  assumes "cache stock_cache (upper stock_symbol) = Some (cached_stock, expiry_time)"
    and "time_at_get e < expiry_time"
  shows "get_stock_data e stock_cache stock_symbol = (Inr cached_stock, stock_cache, [])"
  using TTLCache_get_hit [OF assms] by (simp add: get_stock_data_def Let_def)

theorem C4_witness:
  "get_stock_data mock_env (TTLCache_set stock_cache_init 900 ''AAPL'' mock_stock) ''aapl''
     = (Inr mock_stock, TTLCache_set stock_cache_init 900 ''AAPL'' mock_stock, [])"
proof -
  have a: "cache (TTLCache_set stock_cache_init 900 ''AAPL'' mock_stock) (upper ''aapl'')
             = Some (mock_stock, 1200)"
    by (simp add: upper_aapl TTLCache_set_def stock_cache_init_def TTLCache_init_def)
  have b: "time_at_get mock_env < 1200" by (simp add: mock_env_def)
  show ?thesis by (rule C4_cache_hit_no_calls [OF a b])
qed




lemma try_fetch_details_raises:
  "fetch_stock_values e s d ''Success'' = Inr (sv, st) \<Longrightarrow> get_company_details e s = Inl err \<Longrightarrow>
     try_fetch e s d = (Inl err, [Call_get_daily_open_close s d, Call_get_company_details s])"
  by (simp add: try_fetch_def fetch_company_name_def)














lemma Stock_init_unpurchased:
  "Stock_init e st today s cn sv pd cs = Inr stock_data \<Longrightarrow>
     purchased_amount stock_data = None \<and> purchased_status stock_data = None"
  by (auto simp: Stock_init_def split: option.splits scraped_value.splits)

lemma get_stock_data_unpurchased:
  assumes inv: "\<forall>k v x. cache c k = Some (v, x) \<longrightarrow>
                  purchased_amount v = None \<and> purchased_status v = None"
  shows "(\<forall>stock_data. fst (get_stock_data e c symb) = Inr stock_data \<longrightarrow>
            purchased_amount stock_data = None \<and> purchased_status stock_data = None)
       \<and> (\<forall>k v x. cache (fst (snd (get_stock_data e c symb))) k = Some (v, x) \<longrightarrow>
            purchased_amount v = None \<and> purchased_status v = None)"
proof (cases "fst (TTLCache_get c (time_at_get e) (upper symb))")
  case None
  let ?c0 = "c\<lparr>cache := (cache c)(upper symb := None)\<rparr>"
  have inv0: "purchased_amount v = None \<and> purchased_status v = None"
    if "cache ?c0 k = Some (v, x)" for k v x
    using that inv by (auto split: if_splits)
  obtain r calls where t: "try_fetch e (upper symb) (strftime e (today_at_fetch e - 2)) = (r, calls)"
    by (cases "try_fetch e (upper symb) (strftime e (today_at_fetch e - 2))")
  show ?thesis
  proof (cases r)
    case (Inl err)
    then have "get_stock_data e c symb = (Inl (except_clauses err), ?c0, calls)"
      by (simp add: get_stock_data_miss [OF None] t)
    then show ?thesis using inv0 by auto
  next
    case (Inr tup)
    obtain sv cn pd cs st where tup: "tup = (sv, cn, pd, cs, st)" by (cases tup) auto
    show ?thesis
    proof (cases "Stock_init e st (today_at_build e) (upper symb) cn sv pd cs")
      case (Inl err)
      then have "get_stock_data e c symb = (Inl err, ?c0, calls)"
        by (simp add: get_stock_data_miss [OF None] t Inr tup)
      then show ?thesis using inv0 by auto
    next
      case (Inr sd)
      then have g: "get_stock_data e c symb =
          (Inr sd, TTLCache_set ?c0 (time_at_set e) (upper symb) sd, calls)"
        using \<open>r = Inr tup\<close> by (simp add: get_stock_data_miss [OF None] t tup)
      have sd: "purchased_amount sd = None \<and> purchased_status sd = None"
        using Inr by (rule Stock_init_unpurchased)
      have "purchased_amount v = None \<and> purchased_status v = None"
        if "cache (TTLCache_set ?c0 (time_at_set e) (upper symb) sd) k = Some (v, x)" for k v x
      proof (cases "k = upper symb")
        case True
        then have "v = sd" using that by (simp add: TTLCache_set_def)
        then show ?thesis using sd by simp
      next
        case False
        then have "cache ?c0 k = Some (v, x)" using that by (simp add: TTLCache_set_def)
        then show ?thesis by (rule inv0)
      qed
      then show ?thesis using sd by (simp add: g)
    qed
  qed
next
  case (Some v)
  then have g: "TTLCache_get c (time_at_get e) (upper symb) = (Some v, c)"
    and "\<exists>x. cache c (upper symb) = Some (v, x)"
    by (auto simp: TTLCache_get_def split: option.splits if_splits)
  then show ?thesis using inv by (auto simp: get_stock_data_def Let_def)
qed

lemma serve_unpurchased:
  assumes "\<forall>k v x. cache c k = Some (v, x) \<longrightarrow>
             purchased_amount v = None \<and> purchased_status v = None"
    and "Inr stock_data \<in> set (serve c requests)"
  shows "purchased_amount stock_data = None \<and> purchased_status stock_data = None"
  using assms
proof (induction requests arbitrary: c)
  case Nil
  then show ?case by simp
next
  case (Cons r requests)
  obtain e symb where r: "r = (e, symb)" by (cases r)
  obtain res c1 calls where g: "get_stock_data e c symb = (res, c1, calls)"
    by (cases "get_stock_data e c symb")
  note step = get_stock_data_unpurchased [OF Cons.prems(1), of e symb]
  from Cons.prems(2) have "res = Inr stock_data \<or> Inr stock_data \<in> set (serve c1 requests)"
    by (auto simp add: r g)
  then show ?case
  proof
    assume "res = Inr stock_data"
    then show ?thesis using step g by simp
  next
    assume "Inr stock_data \<in> set (serve c1 requests)"
    moreover have "\<forall>k v x. cache c1 k = Some (v, x) \<longrightarrow>
             purchased_amount v = None \<and> purchased_status v = None"
      using step g by simp
    ultimately show ?thesis using Cons.IH by blast
  qed
qed

text \<open>
  C10. In every run of the server from the empty cache, whatever the requests and
  whatever the sources answer, each record returned has no purchased amount and no
  purchased status: a record is built with both fields unset, and a record served from
  the cache was built by an earlier request.
\<close>

theorem C10_purchase_fields_never_set:
  assumes "Inr stock_data \<in> set (serve stock_cache_init requests)"
  shows "purchased_amount stock_data = None \<and> purchased_status stock_data = None"
proof -
  have "\<forall>k v x. cache stock_cache_init k = Some (v, x) \<longrightarrow>
          purchased_amount v = None \<and> purchased_status v = None"
    by (simp add: stock_cache_init_def TTLCache_init_def)
  then show ?thesis using assms by (rule serve_unpurchased)
qed

lemma mock_serve:
  "serve stock_cache_init [(mock_env, ''aapl''), (mock_env, ''aapl'')] = [Inr mock_stock, Inr mock_stock]"
proof -
  have a: "cache (TTLCache_set stock_cache_init 1001 ''AAPL'' mock_stock) (upper ''aapl'')
             = Some (mock_stock, 1301)"
    by (simp add: upper_aapl TTLCache_set_def stock_cache_init_def TTLCache_init_def)
  have b: "time_at_get mock_env < 1301" by (simp add: mock_env_def)
  have h: "get_stock_data mock_env (TTLCache_set stock_cache_init 1001 ''AAPL'' mock_stock) ''aapl''
      = (Inr mock_stock, TTLCache_set stock_cache_init 1001 ''AAPL'' mock_stock, [])"
    using TTLCache_get_hit [OF a b] by (simp add: get_stock_data_def Let_def)
  have "serve stock_cache_init [(mock_env, ''aapl''), (mock_env, ''aapl'')]
      = Inr mock_stock # serve (TTLCache_set stock_cache_init 1001 ''AAPL'' mock_stock) [(mock_env, ''aapl'')]"
    by (simp add: mock_run)
  also have "serve (TTLCache_set stock_cache_init 1001 ''AAPL'' mock_stock) [(mock_env, ''aapl'')]
      = [Inr mock_stock]"
    by (simp add: h)
  finally show ?thesis .
qed

theorem C10_witness:
  "Inr mock_stock \<in> set (serve stock_cache_init [(mock_env, ''aapl''), (mock_env, ''aapl'')])
   \<and> purchased_amount mock_stock = None \<and> purchased_status mock_stock = None"
proof -
  have m: "Inr mock_stock \<in> set (serve stock_cache_init [(mock_env, ''aapl''), (mock_env, ''aapl'')])"
    unfolding mock_serve by simp
  show ?thesis using m C10_purchase_fields_never_set [OF m] by simp
qed

lemma scrape_competitor_rows_acc:
  "scrape_competitor_rows fl rows acc = acc @ List.map_filter (qualifying_competitor fl) rows"
proof (induction rows arbitrary: acc)
  case Nil
  then show ?case by (simp add: List.map_filter_simps)
next
  case (Cons row rows)
  show ?case
    by (simp add: Cons.IH List.map_filter_simps qualifying_competitor_def detected_currency_def
        Let_def split: option.split)
qed

lemma scrape_competitors_rows:
  "competitors_section doc = Table (Some rows) \<Longrightarrow>
     scrape_competitors fl doc = List.map_filter (qualifying_competitor fl) rows"
  by (simp add: scrape_competitors_def find_table_def scrape_competitor_rows_acc)

lemma map_filter_drop:
  "f x = None \<Longrightarrow> List.map_filter f (xs @ x # ys) = List.map_filter f (xs @ ys)"
  by (simp add: List.map_filter_def)

lemma unparsable_not_qualifying:
  "market_cap_tag row = Some m \<Longrightarrow> parse_market_cap_string fl m = None \<Longrightarrow>
     qualifying_competitor fl row = None"
  by (simp add: qualifying_competitor_def split: option.split)

text \<open>
  C7. On a response with a 2xx status whose body the HTML library parsed, the scraper
  raises nothing and returns the dict of the two results, whatever the document holds.
  Without a Competitors section (no label, no header or no table after it), or with a
  table that has no body, the competitor sequence is empty. Otherwise it holds, in
  document order, the competitor of every row that has a name cell and a market-cap cell
  whose shorthand parses; a row whose shorthand does not parse is dropped, and the
  sequence is the one the remaining rows give.
\<close>

theorem C7_extraction_tolerates_missing_and_malformed:
  "(requests_get (''https://www.marketwatch.com/investing/stock/'' @ lower symbol) = Inr response
      \<and> 200 \<le> mw_status_code response \<and> mw_status_code response < 300
      \<and> mw_soup response = Inr doc \<longrightarrow>
      scrape_performance_and_competitors requests_get fl symbol
        = Inr [(''performance_data'', PerformanceV (scrape_performance fl doc)),
               (''competitors'', CompetitorsV (scrape_competitors fl doc))])
   \<and> (find_table (competitors_section doc) = None \<longrightarrow> scrape_competitors fl doc = [])
   \<and> (competitors_section doc = Table None \<longrightarrow> scrape_competitors fl doc = [])
   \<and> (competitors_section doc = Table (Some rows) \<longrightarrow>
        scrape_competitors fl doc = List.map_filter (qualifying_competitor fl) rows)
   \<and> (market_cap_tag row = Some m \<and> parse_market_cap_string fl m = None \<longrightarrow>
        scrape_competitors fl (doc\<lparr>competitors_section := Table (Some (before @ row # after))\<rparr>)
          = scrape_competitors fl (doc\<lparr>competitors_section := Table (Some (before @ after))\<rparr>))"
proof -
  have a: "scrape_performance_and_competitors requests_get fl symbol
        = Inr [(''performance_data'', PerformanceV (scrape_performance fl doc)),
               (''competitors'', CompetitorsV (scrape_competitors fl doc))]"
    if "requests_get (''https://www.marketwatch.com/investing/stock/'' @ lower symbol) = Inr response"
      and "200 \<le> mw_status_code response" and "mw_status_code response < 300"
      and "mw_soup response = Inr doc"
    using that by (simp add: scrape_performance_and_competitors_def)
  have b: "scrape_competitors fl doc = []" if "find_table (competitors_section doc) = None"
    using that by (simp add: scrape_competitors_def)
  have c: "scrape_competitors fl doc = []" if "competitors_section doc = Table None"
    using that by (simp add: scrape_competitors_def find_table_def)
  have d: "scrape_competitors fl (doc\<lparr>competitors_section := Table (Some (before @ row # after))\<rparr>)
          = scrape_competitors fl (doc\<lparr>competitors_section := Table (Some (before @ after))\<rparr>)"
    if "market_cap_tag row = Some m" and "parse_market_cap_string fl m = None"
    using map_filter_drop [of "qualifying_competitor fl" row before after, OF unparsable_not_qualifying [OF that]]
    by (simp add: scrape_competitors_rows)
  show ?thesis using a b c d scrape_competitors_rows by blast
qed

lemmas parse_eval = parse_market_cap_string_def kept_def is_digit_def strip_def is_space_def
  upper_def upper_char_def re_match_market_cap_def digit_or_period_def py_float_def
  float_of_decimal_def decimal_def char_of_def bit_0

lemma qualifying_examples:
  "qualifying_competitor fl \<lparr>name_tag = Some ''Microsoft Corp.'', market_cap_tag = Some ''$2.5T''\<rparr>
     = Some \<lparr>name = ''Microsoft Corp.'', market_cap = \<lparr>currency = ''USD'', value = 2500000000000\<rparr>\<rparr>"
  "qualifying_competitor fl \<lparr>name_tag = Some ''Acme'', market_cap_tag = Some ''n/a''\<rparr> = None"
  "qualifying_competitor fl \<lparr>name_tag = Some ''Sony'', market_cap_tag = Some (yen @ ''15.5T'')\<rparr>
     = Some \<lparr>name = ''Sony'', market_cap = \<lparr>currency = ''JPY'', value = 15500000000000\<rparr>\<rparr>"
  by (simp_all add: qualifying_competitor_def detected_currency_def yen_def won_def parse_eval)

lemma competitors_page_result:
  "scrape_competitors fl competitors_page =
     [\<lparr>name = ''Microsoft Corp.'', market_cap = \<lparr>currency = ''USD'', value = 2500000000000\<rparr>\<rparr>,
      \<lparr>name = ''Sony'', market_cap = \<lparr>currency = ''JPY'', value = 15500000000000\<rparr>\<rparr>]"
proof -
  have sec: "competitors_section competitors_page =
      Table (Some [\<lparr>name_tag = Some ''Microsoft Corp.'', market_cap_tag = Some ''$2.5T''\<rparr>,
                   \<lparr>name_tag = Some ''Acme'', market_cap_tag = Some ''n/a''\<rparr>,
                   \<lparr>name_tag = Some ''Sony'', market_cap_tag = Some (yen @ ''15.5T'')\<rparr>])"
    by (simp add: competitors_page_def)
  show ?thesis
    unfolding scrape_competitors_rows [OF sec]
    by (simp only: List.map_filter_simps qualifying_examples option.case)
qed

theorem C7_witness:
  "scrape_performance_and_competitors (marketwatch_requests_get upstream_competitors_page)
       (\<lambda>t. None) ''AAPL''
     = Inr [(''performance_data'', PerformanceV PerformanceData_init),
            (''competitors'', CompetitorsV
               [\<lparr>name = ''Microsoft Corp.'',
                 market_cap = \<lparr>currency = ''USD'', value = 2500000000000\<rparr>\<rparr>,
                \<lparr>name = ''Sony'', market_cap = \<lparr>currency = ''JPY'', value = 15500000000000\<rparr>\<rparr>])]
   \<and> scrape_competitors (\<lambda>t. None) empty_page = []
   \<and> scrape_competitors (\<lambda>t. None) (empty_page\<lparr>competitors_section := Table None\<rparr>) = []
   \<and> scrape_competitors (\<lambda>t. None) competitors_page
       = scrape_competitors (\<lambda>t. None)
           (competitors_page\<lparr>competitors_section :=
              Table (Some [\<lparr>name_tag = Some ''Microsoft Corp.'', market_cap_tag = Some ''$2.5T''\<rparr>,
                           \<lparr>name_tag = Some ''Sony'', market_cap_tag = Some (yen @ ''15.5T'')\<rparr>])\<rparr>)"
proof -
  let ?ms = "\<lparr>name_tag = Some ''Microsoft Corp.'', market_cap_tag = Some ''$2.5T''\<rparr>"
  let ?acme = "\<lparr>name_tag = Some ''Acme'', market_cap_tag = Some ''n/a''\<rparr>"
  let ?sony = "\<lparr>name_tag = Some ''Sony'', market_cap_tag = Some (yen @ ''15.5T'')\<rparr>"
  let ?resp = "\<lparr>mw_status_code = 200, mw_http_error = [], mw_soup = Inr competitors_page\<rparr>"
  have h1: "marketwatch_requests_get upstream_competitors_page
              (''https://www.marketwatch.com/investing/stock/'' @ lower ''AAPL'') = Inr ?resp
      \<and> 200 \<le> mw_status_code ?resp \<and> mw_status_code ?resp < 300
      \<and> mw_soup ?resp = Inr competitors_page"
    by (simp add: upstream_competitors_page_def upstream_empty_page_def)
  have h2: "find_table (competitors_section empty_page) = None"
    by (simp add: empty_page_def find_table_def)
  have h3: "competitors_section (empty_page\<lparr>competitors_section := Table None\<rparr>) = Table None"
    by simp
  have h5: "market_cap_tag ?acme = Some ''n/a'' \<and> parse_market_cap_string (\<lambda>t. None) ''n/a'' = None"
    by (simp add: parse_eval)
  have p: "scrape_performance (\<lambda>t. None) competitors_page = PerformanceData_init"
    by (simp add: scrape_performance_def competitors_page_def find_table_def)
  have e: "competitors_page\<lparr>competitors_section := Table (Some ([?ms] @ ?acme # [?sony]))\<rparr>
             = competitors_page"
    by (simp add: competitors_page_def)
  note t1 = C7_extraction_tolerates_missing_and_malformed
      [of "marketwatch_requests_get upstream_competitors_page" "''AAPL''" ?resp competitors_page
          "\<lambda>t. None" "[]" ?acme "''n/a''" "[?ms]" "[?sony]", THEN conjunct1, rule_format, OF h1]
  note t2 = C7_extraction_tolerates_missing_and_malformed
      [of "marketwatch_requests_get upstream_competitors_page" "''AAPL''" ?resp empty_page
          "\<lambda>t. None" "[]" ?acme "''n/a''" "[?ms]" "[?sony]", THEN conjunct2, THEN conjunct1,
          rule_format, OF h2]
  note t3 = C7_extraction_tolerates_missing_and_malformed
      [of "marketwatch_requests_get upstream_competitors_page" "''AAPL''" ?resp
          "empty_page\<lparr>competitors_section := Table None\<rparr>"
          "\<lambda>t. None" "[]" ?acme "''n/a''" "[?ms]" "[?sony]", THEN conjunct2, THEN conjunct2,
          THEN conjunct1, rule_format, OF h3]
  note t5 = C7_extraction_tolerates_missing_and_malformed
      [of "marketwatch_requests_get upstream_competitors_page" "''AAPL''" ?resp competitors_page
          "\<lambda>t. None" "[]" ?acme "''n/a''" "[?ms]" "[?sony]", THEN conjunct2, THEN conjunct2,
          THEN conjunct2, THEN conjunct2, rule_format, OF h5]
  show ?thesis using t1 t2 t3 t5 unfolding e by (simp add: p competitors_page_result)
qed

lemma fetch_stock_values_Inr:
  assumes "fetch_stock_values e s d st0 = Inr (sv, st)"
  obtains pd where "get_daily_open_close e s d = Inr pd"
    and "st = st0 @ (if truthy pd then [] else polygon_phrase)"
proof (cases "get_daily_open_close e s d")
  case (Inl err)
  then show ?thesis using assms by (simp add: fetch_stock_values_def)
next
  case (Inr pd)
  have "st = st0 @ (if truthy pd then [] else polygon_phrase)"
    using assms Inr
    by (cases "truthy pd")
      (auto simp: fetch_stock_values_def polygon_phrase_def split: sum.splits json.splits)
  then show ?thesis using that Inr by blast
qed

lemma fetch_company_name_Inr:
  assumes "fetch_company_name e s st0 = Inr (cn, st)"
  obtains cd where "get_company_details e s = Inr cd"
    and "st = st0 @ (if has_name cd then [] else company_phrase)"
proof (cases "get_company_details e s")
  case (Inl err)
  then show ?thesis using assms by (simp add: fetch_company_name_def)
next
  case (Inr cd)
  have "st = st0 @ (if has_name cd then [] else company_phrase)"
    using assms Inr
    by (cases cd)
      (auto simp: fetch_company_name_def company_phrase_def has_name_def dict_get_def
        split: if_splits)
  then show ?thesis using that Inr by blast
qed

lemma fetch_scraped_Inr:
  assumes "fetch_scraped e s st0 = Inr (p, c, st)"
  obtains sd where "scrape e s = Inr sd"
    and "st = st0 @ (if sd \<noteq> [] then [] else marketwatch_phrase)"
proof (cases "scrape e s")
  case (Inl err)
  then show ?thesis using assms by (simp add: fetch_scraped_def)
next
  case (Inr sd)
  have "st = st0 @ (if sd \<noteq> [] then [] else marketwatch_phrase)"
    using assms Inr
    by (cases "sd = []")
      (auto simp: fetch_scraped_def marketwatch_phrase_def split: option.splits)
  then show ?thesis using that Inr by blast
qed

lemma try_fetch_status:
  assumes "try_fetch e s d = (Inr (sv, cn, p, c, st), calls)"
  shows "\<exists>pd cd sd. get_daily_open_close e s d = Inr pd \<and> get_company_details e s = Inr cd
           \<and> scrape e s = Inr sd
           \<and> st = ''Success'' @ (if truthy pd then [] else polygon_phrase)
                    @ (if has_name cd then [] else company_phrase)
                    @ (if sd \<noteq> [] then [] else marketwatch_phrase)"
proof -
  from assms obtain st1 st2 where
    a: "fetch_stock_values e s d ''Success'' = Inr (sv, st1)"
    and b: "fetch_company_name e s st1 = Inr (cn, st2)"
    and c: "fetch_scraped e s st2 = Inr (p, c, st)"
    by (auto simp: try_fetch_def split: sum.splits prod.splits)
  from a obtain pd where pd: "get_daily_open_close e s d = Inr pd"
    and st1: "st1 = ''Success'' @ (if truthy pd then [] else polygon_phrase)"
    by (rule fetch_stock_values_Inr)
  from b obtain cd where cd: "get_company_details e s = Inr cd"
    and st2: "st2 = st1 @ (if has_name cd then [] else company_phrase)"
    by (rule fetch_company_name_Inr)
  from c obtain sd where sd: "scrape e s = Inr sd"
    and st3: "st = st2 @ (if sd \<noteq> [] then [] else marketwatch_phrase)"
    by (rule fetch_scraped_Inr)
  have "st = ''Success'' @ (if truthy pd then [] else polygon_phrase)
                    @ (if has_name cd then [] else company_phrase)
                    @ (if sd \<noteq> [] then [] else marketwatch_phrase)"
    unfolding st3 st2 st1 by simp
  then show ?thesis using pd cd sd by blast
qed

lemma get_stock_data_status:
  assumes miss: "fst (TTLCache_get c (time_at_get e) (upper symb)) = None"
    and res: "fst (get_stock_data e c symb) = Inr stock_data"
  shows "\<exists>pd cd sd.
           get_daily_open_close e (upper symb) (strftime e (today_at_fetch e - 2)) = Inr pd
         \<and> get_company_details e (upper symb) = Inr cd
         \<and> scrape e (upper symb) = Inr sd
         \<and> status stock_data =
              ''Success'' @ (if truthy pd then [] else polygon_phrase)
                @ (if has_name cd then [] else company_phrase)
                @ (if sd \<noteq> [] then [] else marketwatch_phrase)"
proof -
  obtain r calls where t: "try_fetch e (upper symb) (strftime e (today_at_fetch e - 2)) = (r, calls)"
    by (cases "try_fetch e (upper symb) (strftime e (today_at_fetch e - 2))")
  show ?thesis
  proof (cases r)
    case (Inl err)
    then show ?thesis using res by (simp add: get_stock_data_miss [OF miss] t)
  next
    case (Inr tup)
    obtain sv cn pd cs st where tup: "tup = (sv, cn, pd, cs, st)" by (cases tup) auto
    have "status stock_data = st"
      using res Inr
      by (auto simp: get_stock_data_miss [OF miss] t tup Stock_init_def
          split: sum.splits option.splits scraped_value.splits)
    then show ?thesis using try_fetch_status [OF t [unfolded Inr tup]] by simp
  qed
qed

lemma get_stock_data_no_daily:
  assumes miss: "fst (TTLCache_get c (time_at_get e) (upper symb)) = None"
    and daily: "get_daily_open_close e (upper symb) (strftime e (today_at_fetch e - 2)) = Inr pd"
    and soft: "\<not> truthy pd"
    and details: "get_company_details e (upper symb) = Inr (JObj d)"
    and named: "truthy (dict_get d ''name'' JNull)"
    and valid: "validate_str e (dict_get d ''name'' JNull) = Some n"
    and scraped: "scrape e (upper symb) = Inr sd"
    and perf: "map_of sd ''performance_data'' = Some (PerformanceV p)"
    and comp: "map_of sd ''competitors'' = Some (CompetitorsV cs)"
  shows "fst (get_stock_data e c symb) =
           Inr \<lparr>status = ''Success (Polygon daily data not available)'', purchased_amount = None,
                purchased_status = None, request_data = today_at_build e,
                company_code = upper symb, company_name = n,
                stock_values = \<lparr>open = 0, high = 0, low = 0, close = 0\<rparr>,
                performance_data = p, competitors = cs\<rparr>"
proof -
  have dne: "d \<noteq> []" using named by (auto simp: dict_get_def)
  have sne: "sd \<noteq> []" using perf by auto
  have a: "fetch_stock_values e (upper symb) (strftime e (today_at_fetch e - 2)) ''Success''
      = Inr (\<lparr>open = 0, high = 0, low = 0, close = 0\<rparr>, ''Success (Polygon daily data not available)'')"
    using daily soft by (simp add: fetch_stock_values_def)
  have b: "fetch_company_name e (upper symb) ''Success (Polygon daily data not available)''
      = Inr (dict_get d ''name'' JNull, ''Success (Polygon daily data not available)'')"
    using details named dne by (simp add: fetch_company_name_def)
  have c: "fetch_scraped e (upper symb) ''Success (Polygon daily data not available)''
      = Inr (PerformanceV p, CompetitorsV cs, ''Success (Polygon daily data not available)'')"
    using scraped perf comp sne by (simp add: fetch_scraped_def)
  have t: "fst (try_fetch e (upper symb) (strftime e (today_at_fetch e - 2))) =
      Inr (\<lparr>open = 0, high = 0, low = 0, close = 0\<rparr>, dict_get d ''name'' JNull, PerformanceV p,
           CompetitorsV cs, ''Success (Polygon daily data not available)'')"
    by (simp add: try_fetch_def a b c)
  obtain calls where t': "try_fetch e (upper symb) (strftime e (today_at_fetch e - 2)) =
      (Inr (\<lparr>open = 0, high = 0, low = 0, close = 0\<rparr>, dict_get d ''name'' JNull, PerformanceV p,
           CompetitorsV cs, ''Success (Polygon daily data not available)''), calls)"
    using t by (cases "try_fetch e (upper symb) (strftime e (today_at_fetch e - 2))") auto
  show ?thesis
    by (simp add: get_stock_data_miss [OF miss] t' Stock_init_def valid)
qed

lemma make_request_failed:
  assumes "requests_get (POLYGON_BASE_URL @ endpoint) (params @ [(''apiKey'', k)]) = Inr response"
    and "status_code response < 400"
    and "json_body response = Some (JObj data)"
    and "dict_get data ''status'' JNull = JStr ''failed''"
  shows "make_request requests_get k endpoint params = Inr []"
  using assms by (simp add: make_request_def Let_def)

text \<open>
  C5. When Polygon.io answers the open-close request with status \<open>failed\<close> under an HTTP
  status below 400, the quote client returns the empty dict. On a cache miss where the
  daily-quote fetch returns such a falsy result while the profile has a name and the
  scrape returns its two results, the handler returns the record with all four quote
  values zero, the name of the profile, the scraped performance and competitors, and the
  status \<open>Success (Polygon daily data not available)\<close>. In general the status of a record
  built on a miss is \<open>Success\<close> followed by the Polygon phrase when the quote is empty,
  the company phrase when the profile has no name and the MarketWatch phrase when the
  scraped dict is empty, in this order.
\<close>

theorem C5_soft_empty_quote_composition:
  "(polygon_requests_get u (POLYGON_BASE_URL @ ''/v1/open-close/'' @ symbol @ ''/'' @ date_str)
        [(''adjusted'', ''true''), (''apiKey'', polygon_api_key u)] = Inr response
      \<and> status_code response < 400 \<and> json_body response = Some (JObj data)
      \<and> dict_get data ''status'' JNull = JStr ''failed'' \<longrightarrow>
      get_daily_open_close (live u e0) symbol date_str = Inr (JObj []))
   \<and> (fst (TTLCache_get stock_cache (time_at_get e) (upper stock_symbol)) = None
      \<and> get_daily_open_close e (upper stock_symbol) (strftime e (today_at_fetch e - 2)) = Inr pd
      \<and> \<not> truthy pd
      \<and> get_company_details e (upper stock_symbol) = Inr (JObj d)
      \<and> truthy (dict_get d ''name'' JNull)
      \<and> validate_str e (dict_get d ''name'' JNull) = Some n
      \<and> scrape e (upper stock_symbol) = Inr sd
      \<and> map_of sd ''performance_data'' = Some (PerformanceV p)
      \<and> map_of sd ''competitors'' = Some (CompetitorsV cs) \<longrightarrow>
      fst (get_stock_data e stock_cache stock_symbol) =
        Inr \<lparr>status = ''Success (Polygon daily data not available)'', purchased_amount = None,
             purchased_status = None, request_data = today_at_build e,
             company_code = upper stock_symbol, company_name = n,
             stock_values = \<lparr>open = 0, high = 0, low = 0, close = 0\<rparr>,
             performance_data = p, competitors = cs\<rparr>)
   \<and> (fst (TTLCache_get stock_cache (time_at_get e) (upper stock_symbol)) = None
      \<and> fst (get_stock_data e stock_cache stock_symbol) = Inr stock_data \<longrightarrow>
      (\<exists>pd cd sd.
          get_daily_open_close e (upper stock_symbol) (strftime e (today_at_fetch e - 2)) = Inr pd
        \<and> get_company_details e (upper stock_symbol) = Inr cd
        \<and> scrape e (upper stock_symbol) = Inr sd
        \<and> status stock_data =
             ''Success'' @ (if truthy pd then [] else polygon_phrase)
               @ (if has_name cd then [] else company_phrase)
               @ (if sd \<noteq> [] then [] else marketwatch_phrase)))"
proof -
  have a: "get_daily_open_close (live u e0) symbol date_str = Inr (JObj [])"
    if "polygon_requests_get u (POLYGON_BASE_URL @ ''/v1/open-close/'' @ symbol @ ''/'' @ date_str)
        [(''adjusted'', ''true''), (''apiKey'', polygon_api_key u)] = Inr response"
      and "status_code response < 400" and "json_body response = Some (JObj data)"
      and "dict_get data ''status'' JNull = JStr ''failed''"
    using make_request_failed [of "polygon_requests_get u"
        "''/v1/open-close/'' @ symbol @ ''/'' @ date_str" "[(''adjusted'', ''true'')]"
        "polygon_api_key u" response data] that
    by (simp add: live_def PolygonService_get_daily_open_close_def)
  show ?thesis
    using a get_stock_data_no_daily [of stock_cache e stock_symbol pd d n sd p cs]
      get_stock_data_status [of stock_cache e stock_symbol stock_data]
    by blast
qed

theorem C5_witness:
  "get_daily_open_close (live upstream_no_daily mock_env) ''AAPL'' ''2024-01-08'' = Inr (JObj [])
   \<and> fst (get_stock_data mock_env_no_daily stock_cache_init ''aapl'') =
        Inr \<lparr>status = ''Success (Polygon daily data not available)'', purchased_amount = None,
             purchased_status = None, request_data = 738895, company_code = ''AAPL'',
             company_name = ''Apple Inc.'',
             stock_values = \<lparr>open = 0, high = 0, low = 0, close = 0\<rparr>,
             performance_data = mock_performance, competitors = mock_competitors\<rparr>
   \<and> ''Success (Polygon daily data not available)'' = ''Success'' @ polygon_phrase"
proof -
  let ?resp = "\<lparr>status_code = 200, json_body = Some (JObj [(''status'', JStr ''failed'')])\<rparr>"
  let ?d = "[(''ticker'', JStr ''AAPL''), (''name'', JStr ''Apple Inc.''),
             (''market_cap'', JNum 2500000000000), (''currency_name'', JStr ''usd'')]"
  let ?rec = "\<lparr>status = ''Success (Polygon daily data not available)'', purchased_amount = None,
             purchased_status = None, request_data = today_at_build mock_env_no_daily,
             company_code = upper ''aapl'', company_name = ''Apple Inc.'',
             stock_values = \<lparr>open = 0, high = 0, low = 0, close = 0\<rparr>,
             performance_data = mock_performance, competitors = mock_competitors\<rparr>"
  have h1: "polygon_requests_get upstream_no_daily
        (POLYGON_BASE_URL @ ''/v1/open-close/'' @ ''AAPL'' @ ''/'' @ ''2024-01-08'')
        [(''adjusted'', ''true''), (''apiKey'', polygon_api_key upstream_no_daily)] = Inr ?resp
      \<and> status_code ?resp < 400 \<and> json_body ?resp = Some (JObj [(''status'', JStr ''failed'')])
      \<and> dict_get [(''status'', JStr ''failed'')] ''status'' JNull = JStr ''failed''"
    by (simp add: upstream_no_daily_def upstream_empty_page_def POLYGON_BASE_URL_def dict_get_def)
  have h2: "fst (TTLCache_get stock_cache_init (time_at_get mock_env_no_daily) (upper ''aapl'')) = None
      \<and> get_daily_open_close mock_env_no_daily (upper ''aapl'')
           (strftime mock_env_no_daily (today_at_fetch mock_env_no_daily - 2)) = Inr (JObj [])
      \<and> \<not> truthy (JObj [])
      \<and> get_company_details mock_env_no_daily (upper ''aapl'') = Inr (JObj ?d)
      \<and> truthy (dict_get ?d ''name'' JNull)
      \<and> validate_str mock_env_no_daily (dict_get ?d ''name'' JNull) = Some ''Apple Inc.''
      \<and> scrape mock_env_no_daily (upper ''aapl'') = Inr mock_marketwatch_scrape_success
      \<and> map_of mock_marketwatch_scrape_success ''performance_data''
           = Some (PerformanceV mock_performance)
      \<and> map_of mock_marketwatch_scrape_success ''competitors''
           = Some (CompetitorsV mock_competitors)"
    by (simp add: mock_miss mock_env_no_daily_def mock_env_def mock_company_details_def
        dict_get_def validate_str_def mock_marketwatch_scrape_success_def)
  note th = C5_soft_empty_quote_composition
      [of upstream_no_daily "''AAPL''" "''2024-01-08''" ?resp "[(''status'', JStr ''failed'')]"
          mock_env stock_cache_init mock_env_no_daily "''aapl''" "JObj []" ?d "''Apple Inc.''"
          mock_marketwatch_scrape_success mock_performance mock_competitors ?rec]
  have r1: "get_daily_open_close (live upstream_no_daily mock_env) ''AAPL'' ''2024-01-08''
      = Inr (JObj [])"
    using th [THEN conjunct1] h1 by blast
  have r2: "fst (get_stock_data mock_env_no_daily stock_cache_init ''aapl'') = Inr ?rec"
    using th [THEN conjunct2, THEN conjunct1] h2 by blast
  from th [THEN conjunct2, THEN conjunct2] h2 r2
  obtain pd cd sd where
    "get_daily_open_close mock_env_no_daily (upper ''aapl'')
           (strftime mock_env_no_daily (today_at_fetch mock_env_no_daily - 2)) = Inr pd"
    "get_company_details mock_env_no_daily (upper ''aapl'') = Inr cd"
    "scrape mock_env_no_daily (upper ''aapl'') = Inr sd"
    and st: "status ?rec = ''Success'' @ (if truthy pd then [] else polygon_phrase)
               @ (if has_name cd then [] else company_phrase)
               @ (if sd \<noteq> [] then [] else marketwatch_phrase)"
    by blast
  with h2 have "pd = JObj []" "cd = JObj ?d" "sd = mock_marketwatch_scrape_success" by simp_all
  with st have r3: "''Success (Polygon daily data not available)'' = ''Success'' @ polygon_phrase"
    by (simp add: has_name_def dict_get_def mock_marketwatch_scrape_success_def)
  have t: "today_at_build mock_env_no_daily = 738895"
    by (simp add: mock_env_no_daily_def mock_env_def)
  show ?thesis using r1 r2 r3 unfolding t upper_aapl by simp
qed

lemma live_fields:
  "get_daily_open_close (live u e) =
     PolygonService_get_daily_open_close (polygon_requests_get u) (polygon_api_key u)"
  "get_company_details (live u e) =
     PolygonService_get_company_details (polygon_requests_get u) (polygon_api_key u)"
  "scrape (live u e) =
     scrape_performance_and_competitors (marketwatch_requests_get u) (float_builtin u)"
  "time_at_get (live u e) = time_at_get e" "today_at_fetch (live u e) = today_at_fetch e"
  "today_at_build (live u e) = today_at_build e" "time_at_set (live u e) = time_at_set e"
  "strftime (live u e) = strftime e" "float_field (live u e) = float_field e"
  "str_field (live u e) = str_field e"
  by (simp_all add: live_def)

lemma polygon_ok_daily:
  "PolygonService_get_daily_open_close polygon_ok k ''AAPL'' ''2024-01-08''
     = Inr mock_polygon_daily_success"
  by (simp add: PolygonService_get_daily_open_close_def make_request_def polygon_ok_def
      POLYGON_BASE_URL_def mock_polygon_daily_success_def dict_get_def)

lemma polygon_details_daily:
  "PolygonService_get_daily_open_close (polygon_details r) k ''AAPL'' ''2024-01-08''
     = Inr mock_polygon_daily_success"
  by (simp add: PolygonService_get_daily_open_close_def make_request_def polygon_details_def
      POLYGON_BASE_URL_def mock_polygon_daily_success_def dict_get_def)

lemma polygon_ok_details:
  "PolygonService_get_company_details polygon_ok k ''AAPL'' = Inr mock_company_details"
  by (simp add: PolygonService_get_company_details_def make_request_def polygon_ok_def
      POLYGON_BASE_URL_def dict_get_def)

lemma empty_page_scrape:
  "scrape_performance_and_competitors (marketwatch_requests_get upstream_empty_page) fl ''AAPL''
     = Inr [(''performance_data'', PerformanceV PerformanceData_init),
            (''competitors'', CompetitorsV [])]"
  by (simp add: scrape_performance_and_competitors_def upstream_empty_page_def empty_page_def
      scrape_performance_def scrape_competitors_def find_table_def)

lemma mock_values:
  assumes "get_daily_open_close e ''AAPL'' ''2024-01-08'' = Inr mock_polygon_daily_success"
  shows "fetch_stock_values e ''AAPL'' ''2024-01-08'' ''Success''
     = Inr (\<lparr>open = 130, high = 132, low = 259 / 2, close = 263 / 2\<rparr>, ''Success'')"
  by (simp add: fetch_stock_values_def assms mock_polygon_daily_success_def dict_get_def
      StockValues_init_def validate_float_def)

text \<open>
  C6 fails on the code. With both services answering and a MarketWatch page that has
  neither section, the scraper still returns a dict with its two keys, which is truthy:
  the handler composes the record with no metrics and no competitors, and the status
  stays \<open>Success\<close>, without the MarketWatch phrase.
\<close>

theorem C6_empty_scrape_keeps_success_status:
  "scrape (live upstream_empty_page mock_env) ''AAPL''
     = Inr [(''performance_data'', PerformanceV PerformanceData_init),
            (''competitors'', CompetitorsV [])]
   \<and> fst (get_stock_data (live upstream_empty_page mock_env) stock_cache_init ''aapl'')
     = Inr (mock_stock\<lparr>performance_data := PerformanceData_init, competitors := []\<rparr>)
   \<and> status (mock_stock\<lparr>performance_data := PerformanceData_init, competitors := []\<rparr>)
     = ''Success''"
proof -
  let ?e = "live upstream_empty_page mock_env"
  have u: "polygon_requests_get upstream_empty_page = polygon_ok"
    by (simp add: upstream_empty_page_def)
  have d: "strftime ?e (today_at_fetch ?e - 2) = ''2024-01-08''"
    by (simp add: live_fields mock_env_def)
  have s: "scrape ?e ''AAPL'' = Inr [(''performance_data'', PerformanceV PerformanceData_init),
            (''competitors'', CompetitorsV [])]"
    by (simp add: live_fields empty_page_scrape)
  have a: "fetch_stock_values ?e ''AAPL'' ''2024-01-08'' ''Success''
     = Inr (\<lparr>open = 130, high = 132, low = 259 / 2, close = 263 / 2\<rparr>, ''Success'')"
    by (rule mock_values) (simp add: live_fields u polygon_ok_daily)
  have b: "fetch_company_name ?e ''AAPL'' ''Success'' = Inr (JStr ''Apple Inc.'', ''Success'')"
    by (simp add: fetch_company_name_def live_fields u polygon_ok_details
        mock_company_details_def dict_get_def)
  have c: "fetch_scraped ?e ''AAPL'' ''Success''
     = Inr (PerformanceV PerformanceData_init, CompetitorsV [], ''Success'')"
    by (simp add: fetch_scraped_def s)
  have t: "try_fetch ?e ''AAPL'' ''2024-01-08'' =
     (Inr (\<lparr>open = 130, high = 132, low = 259 / 2, close = 263 / 2\<rparr>, JStr ''Apple Inc.'',
           PerformanceV PerformanceData_init, CompetitorsV [], ''Success''),
      [Call_get_daily_open_close ''AAPL'' ''2024-01-08'', Call_get_company_details ''AAPL'',
       Call_scrape_performance_and_competitors ''AAPL''])"
    by (simp add: try_fetch_def a b c)
  have i: "Stock_init ?e ''Success'' (today_at_build ?e) ''AAPL'' (JStr ''Apple Inc.'')
      \<lparr>open = 130, high = 132, low = 259 / 2, close = 263 / 2\<rparr>
      (PerformanceV PerformanceData_init) (CompetitorsV [])
        = Inr (mock_stock\<lparr>performance_data := PerformanceData_init, competitors := []\<rparr>)"
    by (simp add: Stock_init_def validate_str_def mock_stock_def live_fields mock_env_def)
  have g: "fst (get_stock_data ?e stock_cache_init ''aapl'')
     = Inr (mock_stock\<lparr>performance_data := PerformanceData_init, competitors := []\<rparr>)"
    by (simp add: get_stock_data_miss [OF mock_miss] upper_aapl d t i)
  show ?thesis using s g by (simp add: mock_stock_def)
qed

lemma scrape_result_truthy:
  "scrape_performance_and_competitors requests_get fl symbol = Inr sd \<Longrightarrow> sd \<noteq> []"
  by (auto simp: scrape_performance_and_competitors_def Let_def
      split: sum.splits requests_exception.splits if_splits)

lemma dict_get_present:
  "dict_get d k a = v \<Longrightarrow> a \<noteq> v \<Longrightarrow> dict_get d k b = v"
  by (auto simp: dict_get_def split: option.splits)

lemma make_request_error_status:
  assumes "requests_get (POLYGON_BASE_URL @ endpoint) (params @ [(''apiKey'', k)]) = Inr response"
    and "json_body response = Some (JObj data)"
    and "dict_get data ''status'' JNull = JStr ''NOT_FOUND''
         \<or> dict_get data ''status'' JNull = JStr ''ERROR''"
  shows "make_request requests_get k endpoint params =
     Inl (HTTPException (if 400 \<le> status_code response then status_code response else 404)
            (StatusMessage (dict_get data ''status'' JNull)
               (dict_get data ''message''
                  (JStr (if 400 \<le> status_code response then ''Polygon.io API error.''
                         else ''Data not found or API error.'')))))"
proof -
  have "dict_get data ''status'' (JStr ''error'') = dict_get data ''status'' JNull"
    using assms(3) dict_get_present [of data "''status''" JNull _ "JStr ''error''"] by auto
  then show ?thesis using assms
    by (cases "400 \<le> status_code response") (auto simp: make_request_def Let_def)
qed

lemma make_request_success:
  assumes "requests_get (POLYGON_BASE_URL @ endpoint) (params @ [(''apiKey'', k)]) = Inr response"
    and "status_code response < 400"
    and "json_body response = Some (JObj data)"
    and "dict_get data ''status'' JNull \<noteq> JStr ''NOT_FOUND''"
    and "dict_get data ''status'' JNull \<noteq> JStr ''ERROR''"
    and "dict_get data ''status'' JNull \<noteq> JStr ''failed''"
  shows "make_request requests_get k endpoint params = Inr data"
  using assms by (simp add: make_request_def Let_def)

lemma profile_error_raised:
  assumes miss: "fst (TTLCache_get stock_cache (time_at_get e) (upper stock_symbol)) = None"
      and q: "fetch_stock_values (live u e) (upper stock_symbol) (strftime e (today_at_fetch e - 2))
           ''Success'' = Inr (sv, st)"
      and r: "polygon_requests_get u (POLYGON_BASE_URL @ ''/v3/reference/tickers/'' @ upper stock_symbol)
           [(''apiKey'', polygon_api_key u)] = Inr response"
      and j: "json_body response = Some (JObj data)"
      and s: "dict_get data ''status'' JNull = JStr ''NOT_FOUND''
           \<or> dict_get data ''status'' JNull = JStr ''ERROR''"
  shows "fst (get_stock_data (live u e) stock_cache stock_symbol) =
        Inl (HTTPException (if 400 \<le> status_code response then status_code response else 404)
               (StatusMessage (dict_get data ''status'' JNull)
                  (dict_get data ''message''
                     (JStr (if 400 \<le> status_code response then ''Polygon.io API error.''
                            else ''Data not found or API error.'')))))"
proof -
  let ?x = "HTTPException (if 400 \<le> status_code response then status_code response else 404)
             (StatusMessage (dict_get data ''status'' JNull)
                (dict_get data ''message''
                   (JStr (if 400 \<le> status_code response then ''Polygon.io API error.''
                          else ''Data not found or API error.''))))"
  have m: "make_request (polygon_requests_get u) (polygon_api_key u)
             (''/v3/reference/tickers/'' @ upper stock_symbol) [] = Inl ?x"
    using make_request_error_status [of "polygon_requests_get u"
        "''/v3/reference/tickers/'' @ upper stock_symbol" "[]" "polygon_api_key u" response data]
      r j s by simp
  have d: "get_company_details (live u e) (upper stock_symbol) = Inl ?x"
    unfolding live_fields PolygonService_get_company_details_def Let_def m by simp
  have miss': "fst (TTLCache_get stock_cache (time_at_get (live u e)) (upper stock_symbol)) = None"
    using miss by (simp add: live_fields)
  have t: "try_fetch (live u e) (upper stock_symbol)
             (strftime (live u e) (today_at_fetch (live u e) - 2)) =
           (Inl ?x, [Call_get_daily_open_close (upper stock_symbol)
                       (strftime (live u e) (today_at_fetch (live u e) - 2)),
                     Call_get_company_details (upper stock_symbol)])"
    using try_fetch_details_raises [OF _ d] q by (simp add: live_fields)
  show ?thesis
    by (cases "400 \<le> status_code response")
      (simp_all add: get_stock_data_miss [OF miss'] t except_clauses_def)
qed

text \<open>
  C9, as the code has it. On a cache miss, once the quote step has completed, a ticker
  response of Polygon.io whose JSON status is \<open>NOT_FOUND\<close> or \<open>ERROR\<close> makes the handler
  raise an \<^verbatim>\<open>HTTPException\<close> and compose no record: with status code 404 when the HTTP
  status of the response is below 400, with the HTTP status of the response otherwise;
  its detail carries the status and the message of the response. A response under an
  HTTP status below 400 with any other status but \<open>failed\<close>, whose results are a dict
  without a name, is soft-empty: the name is \<open>N/A\<close> and the company phrase is appended
  to the status message.
\<close>

theorem C9_profile_error_is_hard:
  "(fst (TTLCache_get stock_cache (time_at_get e) (upper stock_symbol)) = None
      \<and> fetch_stock_values (live u e) (upper stock_symbol) (strftime e (today_at_fetch e - 2))
           ''Success'' = Inr (sv, st)
      \<and> polygon_requests_get u (POLYGON_BASE_URL @ ''/v3/reference/tickers/'' @ upper stock_symbol)
           [(''apiKey'', polygon_api_key u)] = Inr response
      \<and> json_body response = Some (JObj data)
      \<and> (dict_get data ''status'' JNull = JStr ''NOT_FOUND''
           \<or> dict_get data ''status'' JNull = JStr ''ERROR'') \<longrightarrow>
      fst (get_stock_data (live u e) stock_cache stock_symbol) =
        Inl (HTTPException (if 400 \<le> status_code response then status_code response else 404)
               (StatusMessage (dict_get data ''status'' JNull)
                  (dict_get data ''message''
                     (JStr (if 400 \<le> status_code response then ''Polygon.io API error.''
                            else ''Data not found or API error.''))))))
   \<and> (polygon_requests_get u (POLYGON_BASE_URL @ ''/v3/reference/tickers/'' @ symbol)
           [(''apiKey'', polygon_api_key u)] = Inr response
      \<and> status_code response < 400
      \<and> json_body response = Some (JObj data)
      \<and> dict_get data ''status'' JNull \<noteq> JStr ''NOT_FOUND''
      \<and> dict_get data ''status'' JNull \<noteq> JStr ''ERROR''
      \<and> dict_get data ''status'' JNull \<noteq> JStr ''failed''
      \<and> dict_get data ''results'' (JObj []) = JObj results
      \<and> map_of results ''name'' = None \<longrightarrow>
      fetch_company_name (live u e) symbol st0 = Inr (JStr ''N/A'', st0 @ company_phrase))"
proof -
  note a = profile_error_raised [of stock_cache e stock_symbol u sv st response data]
  have b: "fetch_company_name (live u e) symbol st0 = Inr (JStr ''N/A'', st0 @ company_phrase)"
    if r: "polygon_requests_get u (POLYGON_BASE_URL @ ''/v3/reference/tickers/'' @ symbol)
           [(''apiKey'', polygon_api_key u)] = Inr response"
      and c: "status_code response < 400"
      and j: "json_body response = Some (JObj data)"
      and s: "dict_get data ''status'' JNull \<noteq> JStr ''NOT_FOUND''"
        "dict_get data ''status'' JNull \<noteq> JStr ''ERROR''"
        "dict_get data ''status'' JNull \<noteq> JStr ''failed''"
      and res: "dict_get data ''results'' (JObj []) = JObj results"
      and nm: "map_of results ''name'' = None"
  proof -
    have m: "make_request (polygon_requests_get u) (polygon_api_key u)
               (''/v3/reference/tickers/'' @ symbol) [] = Inr data"
      using make_request_success [of "polygon_requests_get u" "''/v3/reference/tickers/'' @ symbol"
          "[]" "polygon_api_key u" response data] r c j s by simp
    have d: "get_company_details (live u e) symbol = Inr (JObj results)"
      unfolding live_fields PolygonService_get_company_details_def Let_def m by (simp add: res)
    show ?thesis using nm
      by (simp add: fetch_company_name_def d dict_get_def company_phrase_def)
  qed
  show ?thesis using a b by blast
qed

lemma not_found_values:
  "fetch_stock_values (live (upstream_empty_page\<lparr>polygon_requests_get := polygon_details r\<rparr>) mock_env)
       ''AAPL'' ''2024-01-08'' ''Success''
     = Inr (\<lparr>open = 130, high = 132, low = 259 / 2, close = 263 / 2\<rparr>, ''Success'')"
  by (rule mock_values) (simp add: live_fields polygon_details_daily)

theorem C9_witness:
  "fst (get_stock_data (live upstream_not_found mock_env) stock_cache_init ''aapl'')
     = Inl (HTTPException 404
              (StatusMessage (JStr ''NOT_FOUND'') (JStr ''Data not found or API error.'')))
   \<and> fetch_company_name (live upstream_no_name mock_env) ''AAPL'' ''Success''
     = Inr (JStr ''N/A'', ''Success (Company name not found)'')"
proof -
  let ?r1 = "\<lparr>status_code = 200, json_body = Some (JObj [(''status'', JStr ''NOT_FOUND'')])\<rparr>"
  let ?d2 = "[(''status'', JStr ''OK''), (''results'', JObj [(''ticker'', JStr ''AAPL'')])]"
  let ?r2 = "\<lparr>status_code = 200, json_body = Some (JObj ?d2)\<rparr>"
  have h1: "fst (TTLCache_get stock_cache_init (time_at_get mock_env) (upper ''aapl'')) = None
      \<and> fetch_stock_values (live upstream_not_found mock_env) (upper ''aapl'')
           (strftime mock_env (today_at_fetch mock_env - 2)) ''Success''
           = Inr (\<lparr>open = 130, high = 132, low = 259 / 2, close = 263 / 2\<rparr>, ''Success'')
      \<and> polygon_requests_get upstream_not_found
           (POLYGON_BASE_URL @ ''/v3/reference/tickers/'' @ upper ''aapl'')
           [(''apiKey'', polygon_api_key upstream_not_found)] = Inr ?r1
      \<and> json_body ?r1 = Some (JObj [(''status'', JStr ''NOT_FOUND'')])
      \<and> (dict_get [(''status'', JStr ''NOT_FOUND'')] ''status'' JNull = JStr ''NOT_FOUND''
           \<or> dict_get [(''status'', JStr ''NOT_FOUND'')] ''status'' JNull = JStr ''ERROR'')"
  proof -
    have "strftime mock_env (today_at_fetch mock_env - 2) = ''2024-01-08''"
      by (simp add: mock_env_def)
    then show ?thesis
      using not_found_values [of ?r1]
      by (simp add: mock_miss upper_aapl upstream_not_found_def polygon_details_def
          POLYGON_BASE_URL_def dict_get_def)
  qed
  have h2: "polygon_requests_get upstream_no_name
           (POLYGON_BASE_URL @ ''/v3/reference/tickers/'' @ ''AAPL'')
           [(''apiKey'', polygon_api_key upstream_no_name)] = Inr ?r2
      \<and> status_code ?r2 < 400
      \<and> json_body ?r2 = Some (JObj ?d2)
      \<and> dict_get ?d2 ''status'' JNull \<noteq> JStr ''NOT_FOUND''
      \<and> dict_get ?d2 ''status'' JNull \<noteq> JStr ''ERROR''
      \<and> dict_get ?d2 ''status'' JNull \<noteq> JStr ''failed''
      \<and> dict_get ?d2 ''results'' (JObj []) = JObj [(''ticker'', JStr ''AAPL'')]
      \<and> map_of [(''ticker'', JStr ''AAPL'')] ''name'' = None"
    by (simp add: upstream_no_name_def polygon_details_def POLYGON_BASE_URL_def dict_get_def)
  have r1: "fst (get_stock_data (live upstream_not_found mock_env) stock_cache_init ''aapl'')
     = Inl (HTTPException 404
              (StatusMessage (JStr ''NOT_FOUND'') (JStr ''Data not found or API error.'')))"
    using C9_profile_error_is_hard
      [where stock_cache = stock_cache_init and e = mock_env and stock_symbol = "''aapl''"
         and u = upstream_not_found
         and sv = "\<lparr>open = 130, high = 132, low = 259 / 2, close = 263 / 2\<rparr>"
         and st = "''Success''" and response = ?r1
         and data = "[(''status'', JStr ''NOT_FOUND'')]", THEN conjunct1, rule_format, OF h1]
    by (simp add: dict_get_def)
  have r2: "fetch_company_name (live upstream_no_name mock_env) ''AAPL'' ''Success''
     = Inr (JStr ''N/A'', ''Success'' @ company_phrase)"
    by (rule C9_profile_error_is_hard
      [where u = upstream_no_name and response = ?r2 and data = ?d2 and symbol = "''AAPL''"
         and results = "[(''ticker'', JStr ''AAPL'')]" and e = mock_env and st0 = "''Success''",
       THEN conjunct2, rule_format, OF h2])
  show ?thesis using r1 r2 by (simp add: company_phrase_def)
qed

text \<open>
  C9 as stated fails on a response with status \<open>ERROR\<close> under an HTTP status of
  400 or more: Polygon.io answers the ticker request with a 429, and the handler raises
  a 429, not a not-found error.
\<close>

theorem C9_counterexample:
  "fst (get_stock_data (live upstream_rate_limited mock_env) stock_cache_init ''aapl'')
     = Inl (HTTPException 429 (StatusMessage (JStr ''ERROR'') (JStr ''Polygon.io API error.'')))"
proof -
  let ?r = "\<lparr>status_code = 429, json_body = Some (JObj [(''status'', JStr ''ERROR'')])\<rparr>"
  have d: "strftime mock_env (today_at_fetch mock_env - 2) = ''2024-01-08''"
    by (simp add: mock_env_def)
  have q: "fetch_stock_values (live upstream_rate_limited mock_env) (upper ''aapl'')
           (strftime mock_env (today_at_fetch mock_env - 2)) ''Success''
           = Inr (\<lparr>open = 130, high = 132, low = 259 / 2, close = 263 / 2\<rparr>, ''Success'')"
    using not_found_values [of ?r] by (simp add: d upper_aapl upstream_rate_limited_def)
  have r: "polygon_requests_get upstream_rate_limited
           (POLYGON_BASE_URL @ ''/v3/reference/tickers/'' @ upper ''aapl'')
           [(''apiKey'', polygon_api_key upstream_rate_limited)] = Inr ?r"
    by (simp add: upper_aapl upstream_rate_limited_def polygon_details_def POLYGON_BASE_URL_def)
  have j: "json_body ?r = Some (JObj [(''status'', JStr ''ERROR'')])" by simp
  have s: "dict_get [(''status'', JStr ''ERROR'')] ''status'' JNull = JStr ''NOT_FOUND''
           \<or> dict_get [(''status'', JStr ''ERROR'')] ''status'' JNull = JStr ''ERROR''"
    by (simp add: dict_get_def)
  show ?thesis
    using profile_error_raised [OF mock_miss q r j s] by (simp add: dict_get_def)
qed

end
